theory Spec2Isabelle
  imports Main
begin

section \<open>Package cluster: the convenience wrapper (BasicCluster, BasicNode)\<close>

subsection \<open>Errors, loggers, processes\<close>

text \<open>
  Go's \<^verbatim>\<open>error\<close> values. \<open>External\<close> is an error produced by a collaborator
  (a Node or Cluster implementation, the Docker daemon, the operating system);
  \<open>New\<close> is \<^verbatim>\<open>errors.New(msg)\<close>; \<open>Wrapf msg e\<close> is
  \<^verbatim>\<open>fmt.Errorf("msg: %w", e)\<close>; \<open>NonZeroExitCode code e\<close> is
  \<^verbatim>\<open>fmt.Errorf("non-zero exit code %d: %w", code, err)\<close>, where \<open>err\<close> may be nil.
  A nil error is \<open>None\<close> of \<open>error option\<close>.
\<close>

datatype error =
    External string
  | New string
  | Wrapf string error
  | NonZeroExitCode int "error option"

text \<open>A zap logger is represented by the chain of names it was given with \<^verbatim>\<open>Named\<close>.\<close>

type_synonym Logger = "string list"

definition Named :: "Logger \<Rightarrow> string \<Rightarrow> Logger" where
  "Named l name = l @ [name]"

text \<open>
  The request of \<^verbatim>\<open>StartProc\<close>; the wrapper passes it through unchanged.
\<close>

record StartProcRequest =
  Command :: string
  Args :: "string list"

text \<open>
  A started process: \<^verbatim>\<open>proc.Wait(ctx)\<close> returns an exit code and an error (nil or not).
\<close>

record Process =
  Wait :: "int \<times> error option"

subsection \<open>Nodes\<close>

text \<open>
  Whatever implements the \<^verbatim>\<open>Node\<close> interface. An implementation (\<open>ImplNode\<close>) has
  its \<^verbatim>\<open>StartProc\<close> method and, when its dynamic type has one, a
  \<^verbatim>\<open>RootDir() string\<close> method (\<open>Some\<close> of what it returns). A \<^verbatim>\<open>*BasicNode\<close> is
  itself a \<^verbatim>\<open>Node\<close> (it embeds one): \<open>WrapNode\<close>.
\<close>

datatype Node =
    ImplNode (implStartProc: "StartProcRequest \<Rightarrow> error + Process") (implRootDir: "string option")
  | WrapNode BasicNode
and BasicNode =
    BasicNode (Node: Node) (Log: Logger)

text \<open>
  Method calls on an interface value of type \<^verbatim>\<open>Node\<close>. \<open>StartProc\<close> of a
  \<^verbatim>\<open>*BasicNode\<close> is promoted from the embedded Node. \<open>hasRootDir\<close> is the type
  assertion \<^verbatim>\<open>n.Node.(interface{ RootDir() string })\<close>: it succeeds on every
  \<^verbatim>\<open>*BasicNode\<close>, which declares the method, and on an implementation that has it.
\<close>

fun StartProc :: "Node \<Rightarrow> StartProcRequest \<Rightarrow> error + Process"
  and BasicNode_StartProc :: "BasicNode \<Rightarrow> StartProcRequest \<Rightarrow> error + Process" where
  "StartProc (ImplNode sp rd) req = sp req"
| "StartProc (WrapNode b) req = BasicNode_StartProc b req"
| "BasicNode_StartProc (BasicNode n l) req = StartProc n req"

fun hasRootDir :: "Node \<Rightarrow> bool" where
  "hasRootDir (ImplNode sp rd) = (rd \<noteq> None)"
| "hasRootDir (WrapNode b) = True"

text \<open>
  \<^verbatim>\<open>
  func (n *BasicNode) RootDir() string {
      if rootDirer, ok := n.Node.(interface{ RootDir() string }); ok {
          return rootDirer.RootDir()
      }
      return "/"
  }
  \<close>
  \<open>Node_RootDir\<close> is the call \<^verbatim>\<open>rootDirer.RootDir()\<close> on the wrapped value; on an
  implementation without the method the call does not happen, and the model gives
  \<open>None\<close> there.
\<close>

fun Node_RootDir :: "Node \<Rightarrow> string option"
  and RootDir :: "BasicNode \<Rightarrow> string" where
  "Node_RootDir (ImplNode sp rd) = rd"
| "Node_RootDir (WrapNode b) = Some (RootDir b)"
| "RootDir (BasicNode n l) =
     (if hasRootDir n then (case Node_RootDir n of Some r \<Rightarrow> r | None \<Rightarrow> ''/'') else ''/'')"

text \<open>
  \<^verbatim>\<open>
  func (n *BasicNode) Run(ctx context.Context, req StartProcRequest) (int, error) {
      proc, err := n.StartProc(ctx, req)
      if err != nil {
          return -1, err
      }
      code, err := proc.Wait(ctx)
      if code != 0 {
          return -1, fmt.Errorf("non-zero exit code %d: %w", code, err)
      }
      return code, nil
  }
  \<close>
\<close>

definition Run :: "BasicNode \<Rightarrow> StartProcRequest \<Rightarrow> int \<times> error option" where
  "Run n req =
     (case BasicNode_StartProc n req of
        Inl err \<Rightarrow> (- 1, Some err)
      | Inr proc \<Rightarrow>
          (case Wait proc of
             (code, err) \<Rightarrow>
               if code \<noteq> 0 then (- 1, Some (NonZeroExitCode code err))
               else (code, None)))"

subsection \<open>Clusters\<close>

text \<open>
  Whatever implements the \<^verbatim>\<open>Cluster\<close> interface, over its own state \<open>'s\<close>:
  \<^verbatim>\<open>NewNodes(ctx, n)\<close> returns a list of nodes and an error, both of which may be
  nil, and leaves the implementation in a new state.
\<close>

record 's Cluster =
  NewNodes :: "'s \<Rightarrow> int \<Rightarrow> 's \<times> Node list \<times> error option"

record 's BasicCluster =
  Cluster :: "'s Cluster"
  CLog :: Logger

text \<open>
  A call either returns or panics (here: index out of range).
\<close>

datatype 'a outcome = Panics | Returns 'a

text \<open>
  \<^verbatim>\<open>
  func (c *BasicCluster) NewNodes(ctx context.Context, n int) ([]*BasicNode, error) {
      var basicNodes []*BasicNode
      nodes, err := c.Cluster.NewNodes(ctx, n)
      for _, n := range nodes {
          basicNodes = append(basicNodes, &BasicNode{
              Node: n,
              Log:  c.Log.Named("basic_node"),
          })
      }
      return basicNodes, err
  }
  \<close>
  \<open>wrapLoop\<close> is the \<^verbatim>\<open>for ... range\<close> loop, with \<open>basicNodes\<close> as accumulator.
\<close>

fun wrapLoop :: "Logger \<Rightarrow> Node list \<Rightarrow> BasicNode list \<Rightarrow> BasicNode list" where
  "wrapLoop l [] basicNodes = basicNodes"
| "wrapLoop l (n # nodes) basicNodes =
     wrapLoop l nodes (basicNodes @ [BasicNode n (Named l ''basic_node'')])"

definition BasicCluster_NewNodes ::
  "'s BasicCluster \<Rightarrow> 's \<Rightarrow> int \<Rightarrow> 's \<times> BasicNode list \<times> error option" where
  "BasicCluster_NewNodes c s n =
     (case NewNodes (Cluster c) s n of
        (s', nodes, err) \<Rightarrow> (s', wrapLoop (CLog c) nodes [], err))"

text \<open>
  \<^verbatim>\<open>
  func (c *BasicCluster) NewNode(ctx context.Context) (*BasicNode, error) {
      nodes, err := c.NewNodes(ctx, 1)
      if err != nil {
          return nil, err
      }
      return &BasicNode{
          Node: nodes[0],
          Log:  c.Log.Named("basic_node"),
      }, nil
  }
  \<close>
  \<^verbatim>\<open>c.NewNodes\<close> is the method of \<^verbatim>\<open>*BasicCluster\<close> above (it shadows the embedded
  one), so \<open>nodes[0]\<close> is a \<^verbatim>\<open>*BasicNode\<close>, stored as a \<^verbatim>\<open>Node\<close>. Indexing
  an empty slice panics.
\<close>

definition NewNode :: "'s BasicCluster \<Rightarrow> 's \<Rightarrow> 's \<times> (error + BasicNode) outcome" where
  "NewNode c s =
     (case BasicCluster_NewNodes c s 1 of
        (s', nodes, err) \<Rightarrow>
          (case err of
             Some e \<Rightarrow> (s', Returns (Inl e))
           | None \<Rightarrow>
               (case nodes of
                  [] \<Rightarrow> (s', Panics)
                | b # _ \<Rightarrow>
                    (s', Returns (Inr (BasicNode (WrapNode b) (Named (CLog c) ''basic_node'')))))))"

section \<open>Package docker: a cluster of local Docker containers\<close>

subsection \<open>Data\<close>

text \<open>
  The certificate set of package agent, as \<^verbatim>\<open>cluster.go\<close> reads it:
  \<^verbatim>\<open>c.Cert.CA.CertPEMBytes\<close>, \<^verbatim>\<open>c.Cert.Server.CertPEMBytes\<close>,
  \<^verbatim>\<open>c.Cert.Server.KeyPEMBytes\<close>. Byte slices are strings (a \<open>char\<close> is a byte).
\<close>

record KeyPair =
  CertPEMBytes :: string
  KeyPEMBytes :: string

record Certs =
  CA :: KeyPair
  Server :: KeyPair

text \<open>Handles of the Docker client and of an agent client; both are opaque here.\<close>

datatype DockerClient = DockerClientHandle nat

datatype Client = ClientHandle nat

text \<open>The fields of \<^verbatim>\<open>container.Config\<close> and \<^verbatim>\<open>container.HostConfig\<close> that are set.\<close>

record Config =
  Image :: string
  Entrypoint :: "string list"
  ExposedPorts :: "string list"

record PortBinding =
  HostIP :: string
  BindingHostPort :: string

record HostConfig =
  Binds :: "string list"
  PortBindings :: "(string \<times> PortBinding list) list"

record node =
  ID :: int
  ContainerName :: string
  ContainerID :: string
  HostPort :: int
  Env :: "string \<rightharpoonup> string"
  agentClient :: Client
  dockerClient :: DockerClient

record DockerCluster =
  Cert :: Certs
  BaseImage :: string
  ContainerPrefix :: string
  DockerClient :: DockerClient
  Nodes :: "node list"
  imagePulled :: bool

subsection \<open>The outside world\<close>

text \<open>
  Every call that leaves the package is an event; the state of the world is the list of
  the events so far, oldest first. \<open>EvWaitForServer\<close> also records what the call
  returned.
\<close>

datatype event =
    EvNewClientWithOpts
  | EvGenerateCert
  | EvIntn nat
  | EvGetwd
  | EvFindUp string string
  | EvImagePull string
  | EvGetEphemeralTCPPort
  | EvContainerCreate Config HostConfig string
  | EvContainerStart string
  | EvNewClient Certs string int
  | EvWaitForServer Client "error option"

text \<open>
  What the outside answers, given the events so far and the arguments of the call:
  \<^item> \<open>NewClientWithOpts\<close>: \<^verbatim>\<open>client.NewClientWithOpts(client.FromEnv)\<close>;
  \<^item> \<open>GenerateCert\<close>: \<^verbatim>\<open>agent.GenerateCert()\<close>;
  \<^item> \<open>Intn\<close>: \<^verbatim>\<open>rand.Intn(n)\<close>;
  \<^item> \<open>Getwd\<close>: \<^verbatim>\<open>os.Getwd()\<close>;
  \<^item> \<open>FindUp\<close>: \<^verbatim>\<open>files.FindUp(name, dir)\<close>, the empty string when nothing is found;
  \<^item> \<open>ImagePull\<close>: \<^verbatim>\<open>DockerClient.ImagePull\<close>; on success, the result of draining the
    response with \<^verbatim>\<open>io.Copy(io.Discard, out)\<close>;
  \<^item> \<open>GetEphemeralTCPPort\<close>: \<^verbatim>\<open>net.GetEphemeralTCPPort()\<close>;
  \<^item> \<open>ContainerCreate\<close>: \<^verbatim>\<open>DockerClient.ContainerCreate\<close>, returning the container's ID;
  \<^item> \<open>ContainerStart\<close>: \<^verbatim>\<open>DockerClient.ContainerStart\<close>;
  \<^item> \<open>NewClient\<close>: \<^verbatim>\<open>agent.NewClient(certs, host, port)\<close>;
  \<^item> \<open>WaitForServer\<close>: \<^verbatim>\<open>agentClient.WaitForServer(ctx)\<close>: nil once a handshake
    succeeded, an error on timeout or cancellation;
  \<^item> \<open>EncodeToString\<close>: \<^verbatim>\<open>base64.StdEncoding.EncodeToString\<close>.
\<close>

record world =
  NewClientWithOpts :: "event list \<Rightarrow> error + DockerClient"
  GenerateCert :: "event list \<Rightarrow> error + Certs"
  Intn :: "event list \<Rightarrow> nat \<Rightarrow> nat"
  Getwd :: "event list \<Rightarrow> error + string"
  FindUp :: "event list \<Rightarrow> string \<Rightarrow> string \<Rightarrow> string"
  ImagePull :: "event list \<Rightarrow> string \<Rightarrow> error + error option"
  GetEphemeralTCPPort :: "event list \<Rightarrow> error + int"
  ContainerCreate :: "event list \<Rightarrow> Config \<Rightarrow> HostConfig \<Rightarrow> string \<Rightarrow> error + string"
  ContainerStart :: "event list \<Rightarrow> string \<Rightarrow> error option"
  NewClient :: "event list \<Rightarrow> Certs \<Rightarrow> string \<Rightarrow> int \<Rightarrow> error + Client"
  WaitForServer :: "event list \<Rightarrow> Client \<Rightarrow> error option"
  EncodeToString :: "string \<Rightarrow> string"

subsection \<open>Formatting\<close>

text \<open>\<^verbatim>\<open>strconv.Itoa\<close>, and the \<^verbatim>\<open>%d\<close> of \<^verbatim>\<open>fmt.Sprintf\<close>: decimal digits.\<close>

definition digit :: "nat \<Rightarrow> char" where
  "digit d = ''0123456789'' ! d"

fun decimal :: "nat \<Rightarrow> string" where
  "decimal n = (if n < 10 then [digit n] else decimal (n div 10) @ [digit (n mod 10)])"

declare decimal.simps [simp del]

definition Itoa :: "int \<Rightarrow> string" where
  "Itoa i = (if i < 0 then CHR ''-'' # decimal (nat (- i)) else decimal (nat i))"

text \<open>
  The \<^verbatim>\<open>%q\<close> of \<^verbatim>\<open>fmt.Errorf\<close>, on strings of printable ASCII characters (a
  container ID is one): the string in double quotes, with a backslash before every
  double quote and every backslash in it.
\<close>

definition quoted :: "string \<Rightarrow> string" where
  "quoted s =
     CHR 0x22 #
     concat (map (\<lambda>ch. if ch = CHR 0x22 \<or> ch = CHR 0x5C then [CHR 0x5C, ch] else [ch]) s)
     @ [CHR 0x22]"

subsection \<open>Construction\<close>

definition chars :: string where
  "chars = ''abcefghijklmnopqrstuvwxyz0123456789''"

text \<open>
  \<^verbatim>\<open>
  func randString(n int) string {
      b := make([]byte, n)
      for i := range b {
          b[i] = chars[rand.Intn(len(chars))]
      }
      return string(b)
  }
  \<close>
  \<^verbatim>\<open>rand.Intn(n)\<close> is in \<open>[0, n)\<close>: the world's answer is taken modulo \<open>n\<close>.
\<close>

fun randString :: "world \<Rightarrow> event list \<Rightarrow> nat \<Rightarrow> event list \<times> string" where
  "randString e w 0 = (w, [])"
| "randString e w (Suc k) =
     (let r = Intn e w (length chars) mod length chars in
      case randString e (w @ [EvIntn (length chars)]) k of
        (w', s) \<Rightarrow> (w', chars ! r # s))"

text \<open>
  \<^verbatim>\<open>
  func NewCluster(baseImage string, opts ...Option) (*Cluster, error) {
      dockerClient, err := client.NewClientWithOpts(client.FromEnv)
      if err != nil {
          return nil, fmt.Errorf("building Docker client: %w", err)
      }
      cert, err := agent.GenerateCert()
      if err != nil {
          return nil, fmt.Errorf("generating TLS cert: %w", err)
      }
      return &Cluster{
          Cert:            cert,
          BaseImage:       baseImage,
          DockerClient:    dockerClient,
          ContainerPrefix: randString(6),
      }, nil
  }
  \<close>
  The options are accepted and not applied.
\<close>

definition NewCluster ::
  "world \<Rightarrow> event list \<Rightarrow> string \<Rightarrow> (DockerCluster \<Rightarrow> DockerCluster) list
     \<Rightarrow> event list \<times> (error + DockerCluster)" where
  "NewCluster e w baseImage opts =
     (case NewClientWithOpts e w of
        Inl err \<Rightarrow> (w @ [EvNewClientWithOpts], Inl (Wrapf ''building Docker client'' err))
      | Inr dc \<Rightarrow>
          (case GenerateCert e (w @ [EvNewClientWithOpts]) of
             Inl err \<Rightarrow>
               (w @ [EvNewClientWithOpts, EvGenerateCert], Inl (Wrapf ''generating TLS cert'' err))
           | Inr cert \<Rightarrow>
               (case randString e (w @ [EvNewClientWithOpts, EvGenerateCert]) 6 of
                  (w', prefix) \<Rightarrow>
                    (w', Inr \<lparr>Cert = cert, BaseImage = baseImage, ContainerPrefix = prefix,
                              DockerClient = dc, Nodes = [], imagePulled = False\<rparr>))))"

subsection \<open>Creating nodes\<close>

text \<open>
  \<^verbatim>\<open>
  func (c *Cluster) ensureImagePulled(ctx context.Context) error {
      if c.imagePulled {
          return nil
      }
      out, err := c.DockerClient.ImagePull(ctx, c.BaseImage, types.ImagePullOptions{})
      if err != nil {
          if out != nil {
              out.Close()
          }
          return err
      }
      defer out.Close()
      _, err = io.Copy(io.Discard, out)
      if err != nil {
          return fmt.Errorf("reading Docker pull response: %w", err)
      }
      c.imagePulled = true
      return nil
  }
  \<close>
\<close>

definition ensureImagePulled ::
  "world \<Rightarrow> event list \<Rightarrow> DockerCluster \<Rightarrow> event list \<times> DockerCluster \<times> error option" where
  "ensureImagePulled e w c =
     (if imagePulled c then (w, c, None)
      else
        (case ImagePull e w (BaseImage c) of
           Inl err \<Rightarrow> (w @ [EvImagePull (BaseImage c)], c, Some err)
         | Inr copied \<Rightarrow>
             (case copied of
                Some err \<Rightarrow>
                  (w @ [EvImagePull (BaseImage c)], c,
                   Some (Wrapf ''reading Docker pull response'' err))
              | None \<Rightarrow> (w @ [EvImagePull (BaseImage c)], c\<lparr>imagePulled := True\<rparr>, None))))"

text \<open>
  The \<^verbatim>\<open>container.Config\<close> and \<^verbatim>\<open>container.HostConfig\<close> that the loop of
  \<^verbatim>\<open>NewNodes\<close> passes to \<^verbatim>\<open>ContainerCreate\<close>, from \<^verbatim>\<open>c.BaseImage\<close>,
  \<^verbatim>\<open>c.Cert\<close>, the path of the agent's binary and the host port:
  \<^verbatim>\<open>
  caCertPEMEncoded := base64.StdEncoding.EncodeToString(c.Cert.CA.CertPEMBytes)
  certPEMEncoded := base64.StdEncoding.EncodeToString(c.Cert.Server.CertPEMBytes)
  keyPEMEncoded := base64.StdEncoding.EncodeToString(c.Cert.Server.KeyPEMBytes)
  ...
  &container.Config{
      Image: c.BaseImage,
      Entrypoint: []string{"/nodeagent",
          "--ca-cert-pem", caCertPEMEncoded,
          "--cert-pem", certPEMEncoded,
          "--key-pem", keyPEMEncoded,
          "--on-heartbeat-failure", "exit",
          "--listen-addr", "0.0.0.0:8080",
      },
      ExposedPorts: nat.PortSet{"8080": struct{}{}},
  },
  &container.HostConfig{
      Binds:        []string{fmt.Sprintf("%s:/nodeagent", nodeAgentBin)},
      PortBindings: nat.PortMap{"8080": []nat.PortBinding{
          {HostIP: "0.0.0.0", HostPort: strconv.Itoa(hostPort)}}},
  },
  \<close>
\<close>

definition containerConfig :: "(string \<Rightarrow> string) \<Rightarrow> string \<Rightarrow> Certs \<Rightarrow> Config" where
  "containerConfig enc baseImage cert =
     \<lparr>Image = baseImage,
      Entrypoint = [''/nodeagent'',
        ''--ca-cert-pem'', enc (CertPEMBytes (CA cert)),
        ''--cert-pem'', enc (CertPEMBytes (Server cert)),
        ''--key-pem'', enc (KeyPEMBytes (Server cert)),
        ''--on-heartbeat-failure'', ''exit'',
        ''--listen-addr'', ''0.0.0.0:8080''],
      ExposedPorts = [''8080'']\<rparr>"

definition hostConfig :: "string \<Rightarrow> int \<Rightarrow> HostConfig" where
  "hostConfig nodeAgentBin hostPort =
     \<lparr>Binds = [nodeAgentBin @ '':/nodeagent''],
      PortBindings = [(''8080'', [\<lparr>HostIP = ''0.0.0.0'', BindingHostPort = Itoa hostPort\<rparr>])]\<rparr>"

text \<open>
  One pass through the body of the first loop of \<^verbatim>\<open>NewNodes\<close>, for the node
  numbered \<open>nodeID\<close> (the source's \<^verbatim>\<open>id\<close>), up to the construction of the \<^verbatim>\<open>node\<close>: an error where the source
  returns \<^verbatim>\<open>nil, fmt.Errorf(...)\<close>.
  \<^verbatim>\<open>
  id := startID + i
  containerName := fmt.Sprintf("clustertest-%s-%d", c.ContainerPrefix, id)
  hostPort, err := net.GetEphemeralTCPPort()
  if err != nil {
      return nil, fmt.Errorf("acquiring ephemeral port: %w", err)
  }
  ...
  createResp, err := c.DockerClient.ContainerCreate(ctx, ..., containerName)
  if err != nil {
      return nil, fmt.Errorf("creating Docker container: %w", err)
  }
  containerID := createResp.ID
  err = c.DockerClient.ContainerStart(ctx, containerID, types.ContainerStartOptions{})
  if err != nil {
      return nil, fmt.Errorf("starting container %q: %w", containerID, err)
  }
  agentClient, err := agent.NewClient(c.Cert, "127.0.0.1", hostPort)
  if err != nil {
      return nil, fmt.Errorf("building nodeagent client: %w", err)
  }
  node := &node{
      ID:            id,
      ContainerName: containerName,
      ContainerID:   createResp.ID,
      HostPort:      hostPort,
      Env:           map[string]string{},
      agentClient:   agentClient,
      dockerClient:  c.DockerClient,
  }
  \<close>
\<close>

definition launchNode ::
  "world \<Rightarrow> string \<Rightarrow> int \<Rightarrow> event list \<Rightarrow> DockerCluster \<Rightarrow> event list \<times> (error + node)" where
  "launchNode e nodeAgentBin nodeID w c =
     (let containerName = ''clustertest-'' @ ContainerPrefix c @ ''-'' @ Itoa nodeID;
          w1 = w @ [EvGetEphemeralTCPPort]
      in case GetEphemeralTCPPort e w of
        Inl err \<Rightarrow> (w1, Inl (Wrapf ''acquiring ephemeral port'' err))
      | Inr hostPort \<Rightarrow>
          (let cfg = containerConfig (EncodeToString e) (BaseImage c) (Cert c);
               hc = hostConfig nodeAgentBin hostPort;
               w2 = w1 @ [EvContainerCreate cfg hc containerName]
           in case ContainerCreate e w1 cfg hc containerName of
             Inl err \<Rightarrow> (w2, Inl (Wrapf ''creating Docker container'' err))
           | Inr containerID \<Rightarrow>
               (let w3 = w2 @ [EvContainerStart containerID]
                in case ContainerStart e w2 containerID of
                  Some err \<Rightarrow>
                    (w3, Inl (Wrapf (''starting container '' @ quoted containerID) err))
                | None \<Rightarrow>
                    (let w4 = w3 @ [EvNewClient (Cert c) ''127.0.0.1'' hostPort]
                     in case NewClient e w3 (Cert c) ''127.0.0.1'' hostPort of
                       Inl err \<Rightarrow> (w4, Inl (Wrapf ''building nodeagent client'' err))
                     | Inr ac \<Rightarrow>
                         (w4, Inr \<lparr>ID = nodeID, ContainerName = containerName,
                                   ContainerID = containerID, HostPort = hostPort,
                                   Env = Map.empty, agentClient = ac,
                                   dockerClient = DockerClient c\<rparr>)))))"

text \<open>
  The first loop of \<^verbatim>\<open>NewNodes\<close>:
  \<^verbatim>\<open>
  for i := 0; i < n; i++ {
      ...
      newNodes = append(newNodes, node)
      c.Nodes = append(c.Nodes, node)
  }
  \<close>
  An error leaves the loop and the function; the nodes appended to \<^verbatim>\<open>c.Nodes\<close> by
  earlier passes stay there.
\<close>

function launchLoop ::
  "world \<Rightarrow> string \<Rightarrow> int \<Rightarrow> int \<Rightarrow> int \<Rightarrow> event list \<Rightarrow> DockerCluster \<Rightarrow> node list
     \<Rightarrow> event list \<times> DockerCluster \<times> (error + node list)" where
  "launchLoop e nodeAgentBin startID n i w c newNodes =
     (if i < n then
        (case launchNode e nodeAgentBin (startID + i) w c of
           (w', Inl err) \<Rightarrow> (w', c, Inl err)
         | (w', Inr nd) \<Rightarrow>
             launchLoop e nodeAgentBin startID n (i + 1) w'
               (c\<lparr>Nodes := Nodes c @ [nd]\<rparr>) (newNodes @ [nd]))
      else (w, c, Inr newNodes))"
  by pat_completeness auto
termination
  by (relation "measure (\<lambda>(e, nodeAgentBin, startID, n, i, w, c, newNodes). nat (n - i))") auto

declare launchLoop.simps [simp del]

text \<open>
  The second loop of \<^verbatim>\<open>NewNodes\<close>; what \<^verbatim>\<open>WaitForServer\<close> returns is not assigned:
  \<^verbatim>\<open>
  for _, n := range newNodes {
      n.(*node).agentClient.WaitForServer(ctx)
  }
  \<close>
\<close>

fun waitLoop :: "world \<Rightarrow> event list \<Rightarrow> node list \<Rightarrow> event list" where
  "waitLoop e w [] = w"
| "waitLoop e w (n # newNodes) =
     waitLoop e (w @ [EvWaitForServer (agentClient n) (WaitForServer e w (agentClient n))]) newNodes"

text \<open>
  \<^verbatim>\<open>
  func (c *Cluster) NewNodes(ctx context.Context, n int) (clusteriface.Nodes, error) {
      wd, err := os.Getwd()
      if err != nil {
          return nil, fmt.Errorf("getting wd: %w", err)
      }
      nodeAgentBin := files.FindUp("nodeagent", wd)
      if nodeAgentBin == "" {
          return nil, errors.New("unable to find nodeagent bin")
      }
      err = c.ensureImagePulled(ctx)
      if err != nil {
          return nil, fmt.Errorf("pulling image: %w", err)
      }
      startID := len(c.Nodes)
      var newNodes []clusteriface.Node
      for i := 0; i < n; i++ { ... }
      for _, n := range newNodes { ... }
      return newNodes, nil
  }
  \<close>
\<close>

definition Docker_NewNodes ::
  "world \<Rightarrow> event list \<Rightarrow> DockerCluster \<Rightarrow> int
     \<Rightarrow> event list \<times> DockerCluster \<times> (error + node list)" where
  "Docker_NewNodes e w c n =
     (case Getwd e w of
        Inl err \<Rightarrow> (w @ [EvGetwd], c, Inl (Wrapf ''getting wd'' err))
      | Inr wd \<Rightarrow>
          (let nodeAgentBin = FindUp e (w @ [EvGetwd]) ''nodeagent'' wd;
               w2 = w @ [EvGetwd, EvFindUp ''nodeagent'' wd]
           in if nodeAgentBin = [] then (w2, c, Inl (New ''unable to find nodeagent bin''))
              else
                (case ensureImagePulled e w2 c of
                   (w3, c1, Some err) \<Rightarrow> (w3, c1, Inl (Wrapf ''pulling image'' err))
                 | (w3, c1, None) \<Rightarrow>
                     (case launchLoop e nodeAgentBin (int (length (Nodes c1))) n 0 w3 c1 [] of
                        (w4, c2, Inl err) \<Rightarrow> (w4, c2, Inl err)
                      | (w4, c2, Inr newNodes) \<Rightarrow>
                          (waitLoop e w4 newNodes, c2, Inr newNodes)))))"

text \<open>
  The calls a test makes on one cluster: \<^verbatim>\<open>NewNodes\<close> once for each number of the
  list, whatever the earlier calls returned.
\<close>

fun NewNodesCalls ::
  "world \<Rightarrow> event list \<Rightarrow> DockerCluster \<Rightarrow> int list \<Rightarrow> event list \<times> DockerCluster" where
  "NewNodesCalls e w c [] = (w, c)"
| "NewNodesCalls e w c (n # ns) =
     (case Docker_NewNodes e w c n of (w', c', r) \<Rightarrow> NewNodesCalls e w' c' ns)"

subsection \<open>What a call of NewNodes does to the world\<close>

text \<open>
  The events a call of \<^verbatim>\<open>NewNodes\<close> can add, on a cluster with certificate set
  \<open>cert\<close> and base image \<open>img\<close>: no Docker client is built, no certificate generated
  and no random number drawn; a container is created with the configuration made from
  \<open>img\<close> and \<open>cert\<close>; an agent client is built from \<open>cert\<close> for 127.0.0.1.
\<close>

fun NewNodes_emits :: "(string \<Rightarrow> string) \<Rightarrow> Certs \<Rightarrow> string \<Rightarrow> event \<Rightarrow> bool" where
  "NewNodes_emits enc cert img EvNewClientWithOpts = False"
| "NewNodes_emits enc cert img EvGenerateCert = False"
| "NewNodes_emits enc cert img (EvIntn k) = False"
| "NewNodes_emits enc cert img EvGetwd = True"
| "NewNodes_emits enc cert img (EvFindUp name dir) = (name = ''nodeagent'')"
| "NewNodes_emits enc cert img (EvImagePull i) = (i = img)"
| "NewNodes_emits enc cert img EvGetEphemeralTCPPort = True"
| "NewNodes_emits enc cert img (EvContainerCreate cfg hc name) = (cfg = containerConfig enc img cert)"
| "NewNodes_emits enc cert img (EvContainerStart cid) = True"
| "NewNodes_emits enc cert img (EvNewClient cs host port) = (cs = cert \<and> host = ''127.0.0.1'')"
| "NewNodes_emits enc cert img (EvWaitForServer cl r) = True"

text \<open>
  A node was launched from the certificate set \<open>cert\<close> and the image \<open>img\<close>, by the
  events \<open>w\<close>: a container of its name was created from \<open>img\<close> with an entrypoint
  that starts the agent with the encoded CA certificate, leaf certificate and leaf key
  of \<open>cert\<close>, and an agent client was built from \<open>cert\<close> for its host port.
\<close>

definition launchedFrom :: "(string \<Rightarrow> string) \<Rightarrow> Certs \<Rightarrow> string \<Rightarrow> event list \<Rightarrow> node \<Rightarrow> bool" where
  "launchedFrom enc cert img w nd =
     (list_ex (\<lambda>ev. case ev of
                  EvContainerCreate cfg hc name \<Rightarrow>
                    Image cfg = img
                    \<and> Entrypoint cfg =
                        [''/nodeagent'',
                         ''--ca-cert-pem'', enc (CertPEMBytes (CA cert)),
                         ''--cert-pem'', enc (CertPEMBytes (Server cert)),
                         ''--key-pem'', enc (KeyPEMBytes (Server cert)),
                         ''--on-heartbeat-failure'', ''exit'',
                         ''--listen-addr'', ''0.0.0.0:8080'']
                    \<and> name = ContainerName nd
                | _ \<Rightarrow> False) w
      \<and> list_ex (\<lambda>ev. ev = EvNewClient cert ''127.0.0.1'' (HostPort nd)) w)"

subsection \<open>A concrete world, for evaluating the Docker cluster\<close>

text \<open>
  A world in which every call succeeds, except that \<^verbatim>\<open>WaitForServer\<close> returns
  \<open>waited\<close>: ports are handed out from 40000 by the number of events so far, a
  container's ID is its name after \<open>id-\<close>, an agent client's handle is its port.
\<close>

definition testCerts :: Certs where
  "testCerts =
     \<lparr>CA = \<lparr>CertPEMBytes = ''CA-CERT'', KeyPEMBytes = ''CA-KEY''\<rparr>,
      Server = \<lparr>CertPEMBytes = ''LEAF-CERT'', KeyPEMBytes = ''LEAF-KEY''\<rparr>\<rparr>"

definition testWorld :: "error option \<Rightarrow> world" where
  "testWorld waited =
     \<lparr>NewClientWithOpts = (\<lambda>w. Inr (DockerClientHandle 0)),
      GenerateCert = (\<lambda>w. Inr testCerts),
      Intn = (\<lambda>w k. length w),
      Getwd = (\<lambda>w. Inr ''/repo/examples''),
      FindUp = (\<lambda>w name dir. ''/repo/'' @ name),
      ImagePull = (\<lambda>w img. Inr None),
      GetEphemeralTCPPort = (\<lambda>w. Inr (40000 + int (length w))),
      ContainerCreate = (\<lambda>w cfg hc name. Inr (''id-'' @ name)),
      ContainerStart = (\<lambda>w cid. None),
      NewClient = (\<lambda>w cs host port. Inr (ClientHandle (nat port))),
      WaitForServer = (\<lambda>w cl. waited),
      EncodeToString = (\<lambda>s. ''b64:'' @ s)\<rparr>"

text \<open>
  In that world, \<^verbatim>\<open>NewCluster("ubuntu")\<close> from no events at all leaves the events
  \<open>testLog\<close> and returns the cluster \<open>builtCluster\<close>.
\<close>

definition testLog :: "event list" where
  "testLog =
     [EvNewClientWithOpts, EvGenerateCert,
      EvIntn 35, EvIntn 35, EvIntn 35, EvIntn 35, EvIntn 35, EvIntn 35]"

definition builtCluster :: DockerCluster where
  "builtCluster =
     \<lparr>Cert = testCerts, BaseImage = ''ubuntu'', ContainerPrefix = ''cefghi'',
      DockerClient = DockerClientHandle 0, Nodes = [], imagePulled = False\<rparr>"

text \<open>The first node that \<open>builtCluster\<close> creates in that world.\<close>

definition firstNode :: node where
  "firstNode =
     \<lparr>ID = 0, ContainerName = ''clustertest-cefghi-0'',
      ContainerID = ''id-clustertest-cefghi-0'', HostPort = 40011,
      Env = Map.empty, agentClient = ClientHandle 40011,
      dockerClient = DockerClientHandle 0\<rparr>"

section \<open>Package agent: the node agent, as its specification describes it\<close>

text \<open>
  The agent and its client (\<^verbatim>\<open>NewNodeAgent\<close>, \<^verbatim>\<open>NewClient\<close>, \<^verbatim>\<open>client.Run\<close>, the
  heartbeat handling) are not among the sources; \<^verbatim>\<open>agent_test.go\<close> and
  \<^verbatim>\<open>cluster.go\<close> only call them. The definitions of this section follow the
  specification instead.
\<close>

subsection \<open>Liveness supervisor\<close>

text \<open>
  Modelled from the spec: the agent's start-up inputs and liveness supervisor (package
  agent's flag handling and heartbeat code are missing). The heartbeat-failure action is
  \<open>ignore\<close> or \<open>exit\<close>. The supervisor has the states \<open>Alive\<close> and \<open>Dead\<close> and starts
  \<open>Alive\<close>; a heartbeat resets the deadline; when the deadline elapses with no
  heartbeat the supervisor becomes \<open>Dead\<close>, and then \<open>ignore\<close> takes no action and
  \<open>exit\<close> terminates the agent process. A terminated process takes no further step.
\<close>

datatype FailureAction = Ignore | ExitProcess

datatype Liveness = Alive | Dead

datatype signal = Heartbeat | DeadlineElapsed

record agentState =
  liveness :: Liveness
  running :: bool

fun supervise :: "FailureAction \<Rightarrow> agentState \<Rightarrow> signal \<Rightarrow> agentState" where
  "supervise a st Heartbeat = st"
| "supervise a st DeadlineElapsed =
     (if running st then \<lparr>liveness = Dead, running = (a = Ignore)\<rparr> else st)"

definition superviseAll :: "FailureAction \<Rightarrow> signal list \<Rightarrow> agentState" where
  "superviseAll a sigs = foldl (supervise a) \<lparr>liveness = Alive, running = True\<rparr> sigs"

text \<open>
  Modelled from the spec: the start-up inputs reach the agent as command-line flags, each
  followed by its value, after the name of the binary; \<open>--on-heartbeat-failure\<close> (the
  flag's name is taken from \<^verbatim>\<open>cluster.go\<close>) carries the action.
\<close>

fun flagValues :: "string list \<Rightarrow> (string \<times> string) list" where
  "flagValues (flag # val # rest) = (flag, val) # flagValues rest"
| "flagValues rest = []"

definition parseFailureAction :: "string \<Rightarrow> FailureAction option" where
  "parseFailureAction v =
     (if v = ''ignore'' then Some Ignore else if v = ''exit'' then Some ExitProcess else None)"

definition heartbeatFailureAction :: "string list \<Rightarrow> FailureAction option" where
  "heartbeatFailureAction entrypoint =
     (case map_of (flagValues (tl entrypoint)) ''--on-heartbeat-failure'' of
        None \<Rightarrow> None
      | Some v \<Rightarrow> parseFailureAction v)"

text \<open>
  Modelled from the spec: the agent process (its start-up code is missing), started with
  the given entrypoint, after the given signals; \<open>None\<close> when the entrypoint names no
  valid action.
\<close>

definition agentAfter :: "string list \<Rightarrow> signal list \<Rightarrow> agentState option" where
  "agentAfter entrypoint sigs =
     (case heartbeatFailureAction entrypoint of
        None \<Rightarrow> None
      | Some a \<Rightarrow> Some (superviseAll a sigs))"

subsection \<open>Operating-system processes\<close>

text \<open>
  Modelled from the spec: what the process execution engine runs. A process writes
  bytes to its standard output or standard error, reads a line from its standard input
  (up to the next newline, or up to the end of the input once that is closed), and
  exits with a code. Every process of this type exits once its input has ended.
\<close>

datatype fd = Stdout | Stderr

datatype proc =
    Exit int
  | Write fd string proc
  | ReadLine "string \<Rightarrow> proc"

fun takeLine :: "string \<Rightarrow> (string \<times> string) option" where
  "takeLine [] = None"
| "takeLine (b # bs) =
     (if b = CHR 0x0A then Some ([], bs)
      else (case takeLine bs of None \<Rightarrow> None | Some (l, rest) \<Rightarrow> Some (b # l, rest)))"

text \<open>
  Modelled from the spec: what "the process's exit code" and "its own stream's bytes"
  refer to. What a process does on its own, given all of its input: the bytes of its
  standard output, those of its standard error, and its exit code.
\<close>

primrec behaviour :: "proc \<Rightarrow> string \<Rightarrow> string \<times> string \<times> int" where
  "behaviour (Exit c) inp = ([], [], c)"
| "behaviour (Write f s p) inp =
     (case behaviour p inp of
        (out, err, c) \<Rightarrow> (case f of Stdout \<Rightarrow> (s @ out, err, c) | Stderr \<Rightarrow> (out, s @ err, c)))"
| "behaviour (ReadLine k) inp =
     (case takeLine inp of
        Some (l, rest) \<Rightarrow> behaviour (k l) rest
      | None \<Rightarrow> behaviour (k inp) [])"

text \<open>
  Modelled from the spec: a process on its pipes. A write to a pipe that a relay task
  drains goes through, whatever its size; a write to a pipe that nobody drains fits
  only while the pipe has room, and blocks the process for good otherwise. A read of a
  line that is not there yet blocks until standard input is closed. The record
  \<open>engine\<close> says what an engine does for the process: which pipes it drains and
  whether it closes standard input at the end of the caller's stream.
\<close>

record engine =
  pipeCapacity :: nat
  drains :: "fd \<Rightarrow> bool"
  closesStdin :: bool

record pstate =
  stdinPipe :: string
  stdoutPipe :: string
  stderrPipe :: string
  stdoutRelayed :: string
  stderrRelayed :: string

datatype execution = Exited pstate int | BlockedWriting fd | BlockedReading

definition pipeOf :: "fd \<Rightarrow> pstate \<Rightarrow> string" where
  "pipeOf f st = (case f of Stdout \<Rightarrow> stdoutPipe st | Stderr \<Rightarrow> stderrPipe st)"

definition fill :: "fd \<Rightarrow> string \<Rightarrow> pstate \<Rightarrow> pstate" where
  "fill f s st =
     (case f of Stdout \<Rightarrow> st\<lparr>stdoutPipe := stdoutPipe st @ s\<rparr>
              | Stderr \<Rightarrow> st\<lparr>stderrPipe := stderrPipe st @ s\<rparr>)"

definition relay :: "fd \<Rightarrow> string \<Rightarrow> pstate \<Rightarrow> pstate" where
  "relay f s st =
     (case f of Stdout \<Rightarrow> st\<lparr>stdoutRelayed := stdoutRelayed st @ s\<rparr>
              | Stderr \<Rightarrow> st\<lparr>stderrRelayed := stderrRelayed st @ s\<rparr>)"

primrec execute :: "engine \<Rightarrow> proc \<Rightarrow> pstate \<Rightarrow> execution" where
  "execute g (Exit c) st = Exited st c"
| "execute g (Write f s p) st =
     (if drains g f then execute g p (relay f s st)
      else if length (pipeOf f st) + length s \<le> pipeCapacity g then execute g p (fill f s st)
      else BlockedWriting f)"
| "execute g (ReadLine k) st =
     (case takeLine (stdinPipe st) of
        Some (l, rest) \<Rightarrow> execute g (k l) (st\<lparr>stdinPipe := rest\<rparr>)
      | None \<Rightarrow>
          if closesStdin g then execute g (k (stdinPipe st)) (st\<lparr>stdinPipe := []\<rparr>)
          else BlockedReading)"

subsection \<open>Process execution engine and agent client\<close>

text \<open>
  Modelled from the spec: the run request (command, arguments, optional input stream,
  optional sinks for standard output and standard error; a sink is present or absent,
  and what it received is part of the result).
\<close>

record RunRequest =
  cmd :: string
  args :: "string list"
  stdin :: "string option"
  wantsStdout :: bool
  wantsStderr :: bool

record RunResult =
  exitCode :: int
  stdoutSink :: "string option"
  stderrSink :: "string option"

text \<open>
  Modelled from the spec: the node on which the engine runs (which commands start and
  as what process, and how large a pipe is), and what the request leaves open: the
  sizes of the reads of each relay task (a read returns at least one byte: size \<open>n\<close>
  stands for \<open>n + 1\<close> bytes) and the order in which the two output relay tasks get to
  send (\<open>True\<close>: standard output next).
\<close>

record host =
  spawn :: "string \<Rightarrow> string list \<Rightarrow> error + proc"
  pipeSize :: nat

record timing =
  stdinReads :: "nat list"
  stdoutReads :: "nat list"
  stderrReads :: "nat list"
  sendOrder :: "bool list"

fun chunks :: "nat list \<Rightarrow> string \<Rightarrow> string list" where
  "chunks ns [] = []"
| "chunks [] bs = [bs]"
| "chunks (n # ns) bs = take (Suc n) bs # chunks ns (drop (Suc n) bs)"

text \<open>
  Modelled from the spec: the wire contract of a run (section 6), a stream of
  standard-output and standard-error chunks followed by the exit status or a start
  error; \<open>mux\<close> is the order in which the chunks of the two relay tasks reach the wire,
  each task's own chunks staying in order.
\<close>

datatype frame = StdoutChunk string | StderrChunk string

datatype status = ExitStatus int | StartError error

fun mux :: "bool list \<Rightarrow> frame list \<Rightarrow> frame list \<Rightarrow> frame list" where
  "mux order [] ys = ys"
| "mux order xs [] = xs"
| "mux [] xs ys = xs @ ys"
| "mux (True # order) (x # xs) ys = x # mux order xs ys"
| "mux (False # order) xs (y # ys) = y # mux order xs ys"

text \<open>
  Modelled from the spec: the engine of section 4.3 (its code is missing) drains both
  output pipes whether or not a sink was supplied, and closes the process's standard
  input at the end of the caller's stream.
\<close>

definition processEngine :: "nat \<Rightarrow> engine" where
  "processEngine cap = \<lparr>pipeCapacity = cap, drains = (\<lambda>f. True), closesStdin = True\<rparr>"

text \<open>
  Modelled from the spec: the agent's side of a run (the run handler is missing), after
  sections 4.3 and 6. It is given the chunks of the caller's input stream, writes them
  to the process's standard input, and answers with the chunks of the streams the
  caller wants, in the order the relay tasks send them, followed by the exit status; a
  command that cannot be started gives a start error; a process that never exits gives
  no answer (\<open>None\<close>).
\<close>

definition stdinDelivered :: "string list \<Rightarrow> string" where
  "stdinDelivered inputChunks = concat inputChunks"

definition freshPipes :: "string list \<Rightarrow> pstate" where
  "freshPipes inputChunks =
     \<lparr>stdinPipe = stdinDelivered inputChunks, stdoutPipe = [], stderrPipe = [],
      stdoutRelayed = [], stderrRelayed = []\<rparr>"

definition engineRun ::
  "host \<Rightarrow> timing \<Rightarrow> RunRequest \<Rightarrow> string list \<Rightarrow> (frame list \<times> status) option" where
  "engineRun h t req inputChunks =
     (case spawn h (cmd req) (args req) of
        Inl err \<Rightarrow> Some ([], StartError err)
      | Inr p \<Rightarrow>
          (case execute (processEngine (pipeSize h)) p (freshPipes inputChunks) of
             Exited st c \<Rightarrow>
               Some (mux (sendOrder t)
                       (if wantsStdout req
                        then map StdoutChunk (chunks (stdoutReads t) (stdoutRelayed st)) else [])
                       (if wantsStderr req
                        then map StderrChunk (chunks (stderrReads t) (stderrRelayed st)) else []),
                     ExitStatus c)
           | BlockedWriting f \<Rightarrow> None
           | BlockedReading \<Rightarrow> None))"

text \<open>
  Modelled from the spec: the client's side after section 4.6, the missing
  \<^verbatim>\<open>client.Run\<close> followed by the wait that \<^verbatim>\<open>agent_test.go\<close> calls. It feeds the
  input stream in chunks, appends each chunk it receives to the sink of its stream, and
  yields the exit code; a start error is an error; \<open>None\<close> when the wait never
  returns.
\<close>

fun demux :: "frame list \<Rightarrow> string \<times> string \<Rightarrow> string \<times> string" where
  "demux [] sinks = sinks"
| "demux (StdoutChunk b # fs) (out, err) = demux fs (out @ b, err)"
| "demux (StderrChunk b # fs) (out, err) = demux fs (out, err @ b)"

text \<open>
  Modelled from the spec: the bytes that a sequence of frames of the wire contract
  carries for each of the two streams.
\<close>

fun carried :: "fd \<Rightarrow> frame list \<Rightarrow> string" where
  "carried f [] = []"
| "carried f (StdoutChunk b # fs) = (if f = Stdout then b @ carried f fs else carried f fs)"
| "carried f (StderrChunk b # fs) = (if f = Stderr then b @ carried f fs else carried f fs)"

text \<open>
  Modelled from the spec: the bytes of the caller's input stream, and the chunks in
  which the client sends them. The spec is silent on a process that reads when no
  stream is supplied; here it finds its standard input at its end, as with a stream of
  length zero.
\<close>

definition inputOf :: "RunRequest \<Rightarrow> string" where
  "inputOf req = (case stdin req of None \<Rightarrow> [] | Some bs \<Rightarrow> bs)"

definition inputChunksOf :: "timing \<Rightarrow> RunRequest \<Rightarrow> string list" where
  "inputChunksOf t req = (case stdin req of None \<Rightarrow> [] | Some bs \<Rightarrow> chunks (stdinReads t) bs)"

definition clientRun :: "host \<Rightarrow> timing \<Rightarrow> RunRequest \<Rightarrow> (error + RunResult) option" where
  "clientRun h t req =
     (case engineRun h t req (inputChunksOf t req) of
        None \<Rightarrow> None
      | Some (frames, StartError err) \<Rightarrow> Some (Inl err)
      | Some (frames, ExitStatus c) \<Rightarrow>
          (case demux frames ([], []) of
             (out, err) \<Rightarrow>
               Some (Inr \<lparr>exitCode = c,
                          stdoutSink = (if wantsStdout req then Some out else None),
                          stderrSink = (if wantsStderr req then Some err else None)\<rparr>)))"

subsection \<open>The commands of TestCommand\<close>

text \<open>
  The node of \<^verbatim>\<open>agent_test.go\<close>, as far as \<^verbatim>\<open>TestCommand\<close> uses it: \<^verbatim>\<open>echo\<close>
  prints its arguments and a newline; the two shell scripts of the test do what they
  say; nothing else can be started. Pipes hold 8 bytes.
\<close>

fun joinArgs :: "string list \<Rightarrow> string" where
  "joinArgs [] = []"
| "joinArgs [a] = a"
| "joinArgs (a # as) = a @ '' '' @ joinArgs as"

definition testSpawn :: "string \<Rightarrow> string list \<Rightarrow> error + proc" where
  "testSpawn c as =
     (if c = ''echo'' then Inr (Write Stdout (joinArgs as @ [CHR 0x0A]) (Exit 0))
      else if c = ''sh'' \<and> as = [''-c'', ''printf foo; printf bar 1>&2'']
        then Inr (Write Stdout ''foo'' (Write Stderr ''bar'' (Exit 0)))
      else if c = ''sh'' \<and> as = [''-c'', ''read line; echo $line bar'']
        then Inr (ReadLine (\<lambda>line. Write Stdout (line @ '' bar'' @ [CHR 0x0A]) (Exit 0)))
      else Inl (External ''executable file not found''))"

definition testHost :: host where
  "testHost = \<lparr>spawn = testSpawn, pipeSize = 8\<rparr>"

definition testTiming :: "bool list \<Rightarrow> timing" where
  "testTiming order = \<lparr>stdinReads = [1], stdoutReads = [0, 3], stderrReads = [1], sendOrder = order\<rparr>"

subsection \<open>Concrete collaborators, for evaluating the wrapper\<close>

text \<open>
  A node whose every process starts and exits with code \<open>c\<close> (\<^verbatim>\<open>Wait\<close> reporting no
  error), with or without a \<^verbatim>\<open>RootDir\<close> method; and a cluster implementation
  that hands out the given nodes together with the given error, whatever \<open>n\<close> is.
\<close>

definition exitingNode :: "int \<Rightarrow> string option \<Rightarrow> Node" where
  "exitingNode c rd = ImplNode (\<lambda>req. Inr \<lparr>Wait = (c, None)\<rparr>) rd"

definition fixedCluster :: "Node list \<Rightarrow> error option \<Rightarrow> unit BasicCluster" where
  "fixedCluster nodes err =
     \<lparr>Cluster = \<lparr>NewNodes = (\<lambda>s n. (s, nodes, err))\<rparr>, CLog = [''basic_cluster'']\<rparr>"

section \<open>The wrapper: properties\<close>

lemma wrapLoop_map:
  "wrapLoop l nodes acc = acc @ map (\<lambda>n. BasicNode n (Named l ''basic_node'')) nodes"
  by (induction nodes arbitrary: acc) simp_all

lemma hasRootDir_iff: "hasRootDir n \<longleftrightarrow> Node_RootDir n \<noteq> None"
  by (cases n) simp_all

text \<open>
  C1, as stated, fails: a process that starts and exits with code 3 makes
  \<open>Run\<close> return \<open>(-1, error)\<close>, not \<open>(3, nil)\<close>.
\<close>

theorem Run_nonzero_exit_counterexample:
  "Run (BasicNode (exitingNode 3 None) []) \<lparr>Command = ''sh'', Args = [''-c'', ''exit 3'']\<rparr>
     = (- 1, Some (NonZeroExitCode 3 None))
   \<and> Run (BasicNode (exitingNode 3 None) []) \<lparr>Command = ''sh'', Args = [''-c'', ''exit 3'']\<rparr>
     \<noteq> (3, None)"
  by (simp add: Run_def exitingNode_def)

text \<open>
  C1, amended: when the process starts and \<^verbatim>\<open>Wait\<close> reports exit code \<open>c\<close> with no
  error, \<open>Run\<close> returns \<open>(0, nil)\<close> if \<open>c = 0\<close>, and \<open>-1\<close> with a non-nil
  "non-zero exit code c" error if \<open>c \<noteq> 0\<close>; when the process cannot be started,
  \<open>Run\<close> returns \<open>-1\<close> with the start error.
\<close>

theorem Run_exit_code:
  "(BasicNode_StartProc n req = Inr proc \<and> Wait proc = (c, None) \<longrightarrow>
      Run n req = (if c = 0 then (0, None) else (- 1, Some (NonZeroExitCode c None))))
   \<and> (BasicNode_StartProc n req = Inl e \<longrightarrow> Run n req = (- 1, Some e))"
  by (simp add: Run_def)

theorem Run_exit_code_witness:
  "BasicNode_StartProc (BasicNode (exitingNode 0 None) []) \<lparr>Command = ''true'', Args = []\<rparr>
     = Inr \<lparr>Wait = (0, None)\<rparr>
   \<and> Run (BasicNode (exitingNode 0 None) []) \<lparr>Command = ''true'', Args = []\<rparr> = (0, None)
   \<and> BasicNode_StartProc (BasicNode (exitingNode 2 None) []) \<lparr>Command = ''false'', Args = []\<rparr>
     = Inr \<lparr>Wait = (2, None)\<rparr>
   \<and> Run (BasicNode (exitingNode 2 None) []) \<lparr>Command = ''false'', Args = []\<rparr>
     = (- 1, Some (NonZeroExitCode 2 None))
   \<and> BasicNode_StartProc (BasicNode (ImplNode (\<lambda>req. Inl (External ''no such file'')) None) [])
       \<lparr>Command = ''nope'', Args = []\<rparr> = Inl (External ''no such file'')
   \<and> Run (BasicNode (ImplNode (\<lambda>req. Inl (External ''no such file'')) None) [])
       \<lparr>Command = ''nope'', Args = []\<rparr> = (- 1, Some (External ''no such file''))"
  using
    Run_exit_code [of "BasicNode (exitingNode 0 None) []" "\<lparr>Command = ''true'', Args = []\<rparr>"
      "\<lparr>Wait = (0, None)\<rparr>" 0 "External ''no such file''"]
    Run_exit_code [of "BasicNode (exitingNode 2 None) []" "\<lparr>Command = ''false'', Args = []\<rparr>"
      "\<lparr>Wait = (2, None)\<rparr>" 2 "External ''no such file''"]
    Run_exit_code [of "BasicNode (ImplNode (\<lambda>req. Inl (External ''no such file'')) None) []"
      "\<lparr>Command = ''nope'', Args = []\<rparr>" "\<lparr>Wait = (0, None)\<rparr>" 0 "External ''no such file''"]
  by (simp add: exitingNode_def)

lemma NewNode_examples:
  "snd (NewNode (fixedCluster [] None) ()) = Panics"
  "snd (NewNode (fixedCluster [] (Some (External ''quota''))) ()) = Returns (Inl (External ''quota''))"
  "snd (NewNode (fixedCluster [exitingNode 0 None] None) ())
     = Returns (Inr (BasicNode
         (WrapNode (BasicNode (exitingNode 0 None) [''basic_cluster'', ''basic_node'']))
         [''basic_cluster'', ''basic_node'']))"
  by (simp_all add: NewNode_def BasicCluster_NewNodes_def fixedCluster_def Named_def)

text \<open>
  C8: \<open>NewNode\<close> panics exactly when the wrapped cluster's \<^verbatim>\<open>NewNodes(ctx, 1)\<close>
  returns a nil error together with an empty node list; it then returns neither a node
  nor an error.
\<close>

theorem NewNode_panics_iff:
  "snd (NewNode c s) = Panics \<longleftrightarrow> (\<exists>s'. NewNodes (Cluster c) s 1 = (s', [], None))"
  by (auto simp: NewNode_def BasicCluster_NewNodes_def wrapLoop_map
      split: prod.splits option.splits list.splits)

text \<open>
  C9: \<open>BasicCluster.NewNodes\<close> returns one \<open>BasicNode\<close> per node of the wrapped
  cluster's result, in the same order, together with the wrapped cluster's error,
  whether that error is nil or not; so a caller can receive a non-empty node list and a
  non-nil error from the same call.
\<close>

theorem BasicCluster_NewNodes_not_atomic:
  "BasicCluster_NewNodes c s n =
     (case NewNodes (Cluster c) s n of
        (s', nodes, err) \<Rightarrow>
          (s', map (\<lambda>nd. BasicNode nd (Named (CLog c) ''basic_node'')) nodes, err))
   \<and> (\<exists>c' s0 s1 bs e. BasicCluster_NewNodes c' (s0::unit) 2 = (s1, bs, Some e) \<and> bs \<noteq> [])"
proof
  show "BasicCluster_NewNodes c s n =
     (case NewNodes (Cluster c) s n of
        (s', nodes, err) \<Rightarrow>
          (s', map (\<lambda>nd. BasicNode nd (Named (CLog c) ''basic_node'')) nodes, err))"
    by (simp add: BasicCluster_NewNodes_def wrapLoop_map split: prod.splits)
  have "BasicCluster_NewNodes (fixedCluster [exitingNode 0 None] (Some (External ''quota''))) () 2
      = ((), [BasicNode (exitingNode 0 None) [''basic_cluster'', ''basic_node'']],
         Some (External ''quota''))"
    by (simp add: BasicCluster_NewNodes_def fixedCluster_def Named_def)
  then show "\<exists>c' s0 s1 bs e. BasicCluster_NewNodes c' (s0::unit) 2 = (s1, bs, Some e) \<and> bs \<noteq> []"
    by blast
qed

text \<open>
  C10: \<open>RootDir\<close> of a \<open>BasicNode\<close> is what the wrapped node's \<^verbatim>\<open>RootDir()\<close> returns
  when the wrapped node has that method, and \<open>"/"\<close> when it has not.
\<close>

theorem RootDir_probe:
  "(hasRootDir n \<longrightarrow> Node_RootDir n = Some (RootDir (BasicNode n l)))
   \<and> (\<not> hasRootDir n \<longrightarrow> RootDir (BasicNode n l) = ''/'')"
  by (cases n) auto

theorem RootDir_probe_witness:
  "hasRootDir (exitingNode 0 (Some ''/srv/node''))
   \<and> Node_RootDir (exitingNode 0 (Some ''/srv/node''))
       = Some (RootDir (BasicNode (exitingNode 0 (Some ''/srv/node'')) []))
   \<and> RootDir (BasicNode (exitingNode 0 (Some ''/srv/node'')) []) = ''/srv/node''
   \<and> \<not> hasRootDir (exitingNode 0 None)
   \<and> RootDir (BasicNode (exitingNode 0 None) []) = ''/''
   \<and> hasRootDir (WrapNode (BasicNode (exitingNode 0 (Some ''/srv/node'')) []))
   \<and> RootDir (BasicNode (WrapNode (BasicNode (exitingNode 0 (Some ''/srv/node'')) [])) [])
       = ''/srv/node''"
  using RootDir_probe [of "exitingNode 0 (Some ''/srv/node'')" "[]"]
    RootDir_probe [of "exitingNode 0 None" "[]"]
    RootDir_probe [of "WrapNode (BasicNode (exitingNode 0 (Some ''/srv/node'')) [])" "[]"]
  by (simp add: exitingNode_def)

section \<open>The Docker cluster: properties\<close>

subsection \<open>The events of a call\<close>

lemma randString_log:
  "randString e w k = (w', s) \<Longrightarrow> w' = w @ replicate k (EvIntn (length chars)) \<and> length s = k"
proof (induction k arbitrary: w w' s)
  case 0 then show ?case by simp
next
  case (Suc k)
  then show ?case
    by (auto simp: Let_def replicate_app_Cons_same split: prod.splits dest!: Suc.IH)
qed

lemma ensureImagePulled_log:
  "ensureImagePulled e w c = (w', c', r) \<Longrightarrow>
     Cert c' = Cert c \<and> BaseImage c' = BaseImage c \<and> Nodes c' = Nodes c
     \<and> (\<exists>evs. w' = w @ evs \<and> list_all (NewNodes_emits enc (Cert c) (BaseImage c)) evs)"
  by (auto simp: ensureImagePulled_def split: if_splits sum.splits option.splits)

lemma launchNode_log:
  "launchNode e bin i w c = (w', r) \<Longrightarrow>
     \<exists>evs. w' = w @ evs \<and> list_all (NewNodes_emits (EncodeToString e) (Cert c) (BaseImage c)) evs"
  by (auto simp: launchNode_def Let_def split: sum.splits option.splits)

lemma launchNode_launched:
  "launchNode e bin i w c = (w', Inr nd) \<Longrightarrow>
     launchedFrom (EncodeToString e) (Cert c) (BaseImage c) w' nd"
  by (auto simp: launchNode_def Let_def launchedFrom_def containerConfig_def
      split: sum.splits option.splits)

lemma launchedFrom_append:
  "launchedFrom enc cert img w nd \<Longrightarrow> launchedFrom enc cert img (w @ evs) nd"
  by (auto simp: launchedFrom_def)

lemma launchLoop_log:
  "launchLoop e bin startID n i w c newNodes = (w', c', r) \<Longrightarrow>
     Cert c' = Cert c \<and> BaseImage c' = BaseImage c
     \<and> (\<exists>evs. w' = w @ evs \<and> list_all (NewNodes_emits (EncodeToString e) (Cert c) (BaseImage c)) evs)
     \<and> (list_all (launchedFrom (EncodeToString e) (Cert c) (BaseImage c) w) (Nodes c) \<longrightarrow>
         list_all (launchedFrom (EncodeToString e) (Cert c) (BaseImage c) w') (Nodes c'))"
proof (induction e bin startID n i w c newNodes rule: launchLoop.induct)
  case (1 e bin startID n i w c newNodes)
  show ?case
  proof (cases "i < n")
    case False
    with "1.prems" show ?thesis by (simp add: launchLoop.simps)
  next
    case True
    obtain w1 r1 where ln: "launchNode e bin (startID + i) w c = (w1, r1)"
      by (cases "launchNode e bin (startID + i) w c")
    from launchNode_log [OF ln] obtain evs1 where
      evs1: "w1 = w @ evs1" "list_all (NewNodes_emits (EncodeToString e) (Cert c) (BaseImage c)) evs1"
      by blast
    show ?thesis
    proof (cases r1)
      case (Inl err)
      with True ln "1.prems" have "w' = w1" "c' = c"
        by (simp_all add: launchLoop.simps [of e bin startID n i])
      with evs1 show ?thesis
        by (auto simp: list_all_iff intro: launchedFrom_append)
    next
      case (Inr nd)
      with True ln "1.prems" have rec:
        "launchLoop e bin startID n (i + 1) w1 (c\<lparr>Nodes := Nodes c @ [nd]\<rparr>) (newNodes @ [nd]) = (w', c', r)"
        by (simp add: launchLoop.simps [of e bin startID n i])
      from ln Inr have nd: "launchedFrom (EncodeToString e) (Cert c) (BaseImage c) w1 nd"
        by (simp add: launchNode_launched)
      from "1.IH" [OF True ln [symmetric] Inr rec] evs1 nd show ?thesis
        by (auto simp: list_all_iff intro: launchedFrom_append)
    qed
  qed
qed

lemma waitLoop_log:
  "\<exists>evs. waitLoop e w ns = w @ evs \<and> list_all (NewNodes_emits enc cert img) evs"
proof (induction ns arbitrary: w)
  case Nil then show ?case by simp
next
  case (Cons n ns)
  from Cons [of "w @ [EvWaitForServer (agentClient n) (WaitForServer e w (agentClient n))]"]
  show ?case by auto
qed

lemma Docker_NewNodes_log:
  assumes "Docker_NewNodes e w c n = (w', c', r)"
  shows "Cert c' = Cert c \<and> BaseImage c' = BaseImage c
     \<and> (\<exists>evs. w' = w @ evs \<and> list_all (NewNodes_emits (EncodeToString e) (Cert c) (BaseImage c)) evs)
     \<and> (list_all (launchedFrom (EncodeToString e) (Cert c) (BaseImage c) w) (Nodes c) \<longrightarrow>
         list_all (launchedFrom (EncodeToString e) (Cert c) (BaseImage c) w') (Nodes c'))"
proof (cases "Getwd e w")
  case (Inl err)
  with assms show ?thesis
    by (auto simp: Docker_NewNodes_def list_all_iff intro: launchedFrom_append)
next
  case (Inr wd)
  let ?bin = "FindUp e (w @ [EvGetwd]) ''nodeagent'' wd"
  let ?w2 = "w @ [EvGetwd, EvFindUp ''nodeagent'' wd]"
  let ?P = "NewNodes_emits (EncodeToString e) (Cert c) (BaseImage c)"
  let ?L = "launchedFrom (EncodeToString e) (Cert c) (BaseImage c)"
  show ?thesis
  proof (cases "?bin = []")
    case True
    with assms Inr show ?thesis
      by (auto simp: Docker_NewNodes_def list_all_iff intro: launchedFrom_append)
  next
    case False
    obtain w3 c1 r1 where ip: "ensureImagePulled e ?w2 c = (w3, c1, r1)"
      by (cases "ensureImagePulled e ?w2 c") auto
    from ensureImagePulled_log [OF ip, of "EncodeToString e"] obtain evs3 where
      c1: "Cert c1 = Cert c" "BaseImage c1 = BaseImage c" "Nodes c1 = Nodes c"
      and evs3: "w3 = ?w2 @ evs3" "list_all ?P evs3"
      by blast
    show ?thesis
    proof (cases r1)
      case (Some err)
      with assms Inr False ip have "w' = w3" "c' = c1"
        by (simp_all add: Docker_NewNodes_def)
      with c1 evs3 show ?thesis
        by (auto simp: list_all_iff intro: launchedFrom_append)
    next
      case None
      obtain w4 c2 r2 where ll:
        "launchLoop e ?bin (int (length (Nodes c1))) n 0 w3 c1 [] = (w4, c2, r2)"
        by (cases "launchLoop e ?bin (int (length (Nodes c1))) n 0 w3 c1 []") auto
      from launchLoop_log [OF ll] c1 obtain evs4 where
        c2: "Cert c2 = Cert c" "BaseImage c2 = BaseImage c"
        and evs4: "w4 = w3 @ evs4" "list_all ?P evs4"
        and l4: "list_all (?L w3) (Nodes c) \<longrightarrow> list_all (?L w4) (Nodes c2)"
        by auto
      have l3: "list_all (?L w) (Nodes c) \<Longrightarrow> list_all (?L w3) (Nodes c)"
        using evs3 by (auto simp: list_all_iff intro: launchedFrom_append)
      show ?thesis
      proof (cases r2)
        case (Inl err)
        with assms Inr False ip None ll have "w' = w4" "c' = c2"
          by (simp_all add: Docker_NewNodes_def)
        with c2 evs3 evs4 l3 l4 show ?thesis by auto
      next
        case (Inr newNodes)
        with assms \<open>Getwd e w = Inr wd\<close> False ip None ll
        have w': "w' = waitLoop e w4 newNodes" and "c' = c2"
          by (simp_all add: Docker_NewNodes_def)
        from waitLoop_log [of e w4 newNodes "EncodeToString e" "Cert c" "BaseImage c"]
        obtain evs5 where evs5: "waitLoop e w4 newNodes = w4 @ evs5" "list_all ?P evs5"
          by blast
        from l3 l4 have "list_all (?L w) (Nodes c) \<Longrightarrow> list_all (?L (w4 @ evs5)) (Nodes c2)"
          by (auto simp: list_all_iff intro: launchedFrom_append)
        with w' \<open>c' = c2\<close> c2 evs3 evs4 evs5 show ?thesis by auto
      qed
    qed
  qed
qed

lemma list_all_emits_no_GenerateCert:
  "list_all (NewNodes_emits enc cert img) evs \<Longrightarrow> count_list evs EvGenerateCert = 0"
  by (induction evs) auto

lemma list_all_emits_create:
  "list_all (NewNodes_emits enc cert img) evs \<Longrightarrow> EvContainerCreate cfg hc name \<in> set evs \<Longrightarrow>
     cfg = containerConfig enc img cert"
  by (auto simp: list_all_iff)

lemma list_all_emits_client:
  "list_all (NewNodes_emits enc cert img) evs \<Longrightarrow> EvNewClient cs host port \<in> set evs \<Longrightarrow>
     cs = cert"
  by (auto simp: list_all_iff)

lemma NewCluster_log:
  assumes "NewCluster e w baseImage opts = (w0, Inr c)"
  shows "w0 = w @ [EvNewClientWithOpts, EvGenerateCert] @ replicate 6 (EvIntn (length chars))
     \<and> GenerateCert e (w @ [EvNewClientWithOpts]) = Inr (Cert c)
     \<and> BaseImage c = baseImage \<and> Nodes c = []"
proof -
  obtain w' prefix where rs:
    "randString e (w @ [EvNewClientWithOpts, EvGenerateCert]) 6 = (w', prefix)"
    by (cases "randString e (w @ [EvNewClientWithOpts, EvGenerateCert]) 6")
  from randString_log [OF rs] have "w' = (w @ [EvNewClientWithOpts, EvGenerateCert]) @ replicate 6 (EvIntn (length chars))"
    by simp
  with assms rs show ?thesis
    by (auto simp: NewCluster_def split: sum.splits)
qed

lemma NewNodesCalls_log:
  "NewNodesCalls e w c ns = (w', c') \<Longrightarrow>
     Cert c' = Cert c \<and> BaseImage c' = BaseImage c
     \<and> (\<exists>evs. w' = w @ evs \<and> list_all (NewNodes_emits (EncodeToString e) (Cert c) (BaseImage c)) evs)
     \<and> (list_all (launchedFrom (EncodeToString e) (Cert c) (BaseImage c) w) (Nodes c) \<longrightarrow>
         list_all (launchedFrom (EncodeToString e) (Cert c) (BaseImage c) w') (Nodes c'))"
proof (induction ns arbitrary: w c)
  case Nil
  then show ?case by simp
next
  case (Cons n ns)
  obtain w1 c1 r where nn: "Docker_NewNodes e w c n = (w1, c1, r)"
    by (cases "Docker_NewNodes e w c n") auto
  with Cons.prems have rest: "NewNodesCalls e w1 c1 ns = (w', c')" by simp
  from Docker_NewNodes_log [OF nn] obtain evs1 where
    c1: "Cert c1 = Cert c" "BaseImage c1 = BaseImage c"
    and evs1: "w1 = w @ evs1" "list_all (NewNodes_emits (EncodeToString e) (Cert c) (BaseImage c)) evs1"
    and l1: "list_all (launchedFrom (EncodeToString e) (Cert c) (BaseImage c) w) (Nodes c) \<longrightarrow>
         list_all (launchedFrom (EncodeToString e) (Cert c) (BaseImage c) w1) (Nodes c1)"
    by blast
  from Cons.IH [OF rest] c1 obtain evs2 where
    c': "Cert c' = Cert c" "BaseImage c' = BaseImage c"
    and evs2: "w' = w1 @ evs2" "list_all (NewNodes_emits (EncodeToString e) (Cert c) (BaseImage c)) evs2"
    and l2: "list_all (launchedFrom (EncodeToString e) (Cert c) (BaseImage c) w1) (Nodes c1) \<longrightarrow>
         list_all (launchedFrom (EncodeToString e) (Cert c) (BaseImage c) w') (Nodes c')"
    by auto
  from c' evs1 evs2 l1 l2 show ?case by auto
qed

subsection \<open>Evaluating the concrete world\<close>

lemmas eval_docker = Docker_NewNodes_def testWorld_def testLog_def builtCluster_def testCerts_def
  ensureImagePulled_def launchLoop.simps launchNode_def containerConfig_def hostConfig_def
  Itoa_def decimal.simps digit_def Let_def quoted_def

lemma randString_numeral:
  "randString e w (numeral k) =
     (case randString e (w @ [EvIntn (length chars)]) (pred_numeral k) of
        (w', s) \<Rightarrow> (w', chars ! (Intn e w (length chars) mod length chars) # s))"
  by (simp add: numeral_eq_Suc)

lemma length_chars: "length chars = 35"
  by (simp add: chars_def)

lemma NewCluster_testWorld:
  "NewCluster (testWorld waited) [] ''ubuntu'' [] = (testLog, Inr builtCluster)"
  by (simp add: NewCluster_def testWorld_def randString_numeral length_chars
        testLog_def builtCluster_def)
     (simp add: chars_def)

lemma NewNodes_testWorld:
  "Docker_NewNodes (testWorld waited) testLog builtCluster 1 =
     (testLog @
        [EvGetwd, EvFindUp ''nodeagent'' ''/repo/examples'', EvImagePull ''ubuntu'',
         EvGetEphemeralTCPPort,
         EvContainerCreate (containerConfig (EncodeToString (testWorld waited)) ''ubuntu'' testCerts)
           (hostConfig ''/repo/nodeagent'' 40011) ''clustertest-cefghi-0'',
         EvContainerStart ''id-clustertest-cefghi-0'',
         EvNewClient testCerts ''127.0.0.1'' 40011,
         EvWaitForServer (ClientHandle 40011) waited],
      builtCluster\<lparr>Nodes := [firstNode], imagePulled := True\<rparr>,
      Inr [firstNode])"
  by (simp add: eval_docker firstNode_def)

subsection \<open>One certificate set\<close>

text \<open>
  C3: \<^verbatim>\<open>NewCluster\<close> generates a certificate set exactly once, and no call of
  \<^verbatim>\<open>NewNodes\<close> on the cluster generates another: among the events from the
  construction of the cluster through any sequence of \<^verbatim>\<open>NewNodes\<close> calls there is one
  \<^verbatim>\<open>GenerateCert\<close>, whose result is the cluster's \<open>Cert\<close>, which no call changes;
  every container is created from the cluster's image with the entrypoint that hands
  the agent the encoded CA certificate, leaf certificate and leaf key of that set; every
  agent client is built from that set; and every node of the cluster was launched so.
\<close>

theorem one_certificate_set:
  assumes nc: "NewCluster e w baseImage opts = (w0, Inr c)"
    and calls: "NewNodesCalls e w0 c ns = (w1, c1)"
  shows "count_list (drop (length w) w1) EvGenerateCert = 1
     \<and> GenerateCert e (w @ [EvNewClientWithOpts]) = Inr (Cert c)
     \<and> Cert c1 = Cert c
     \<and> (\<forall>cfg hc name. EvContainerCreate cfg hc name \<in> set (drop (length w) w1) \<longrightarrow>
           Image cfg = baseImage
           \<and> Entrypoint cfg =
               [''/nodeagent'',
                ''--ca-cert-pem'', EncodeToString e (CertPEMBytes (CA (Cert c))),
                ''--cert-pem'', EncodeToString e (CertPEMBytes (Server (Cert c))),
                ''--key-pem'', EncodeToString e (KeyPEMBytes (Server (Cert c))),
                ''--on-heartbeat-failure'', ''exit'',
                ''--listen-addr'', ''0.0.0.0:8080''])
     \<and> (\<forall>cs host port. EvNewClient cs host port \<in> set (drop (length w) w1) \<longrightarrow> cs = Cert c)
     \<and> list_all (launchedFrom (EncodeToString e) (Cert c) baseImage w1) (Nodes c1)"
proof -
  let ?intro = "[EvNewClientWithOpts, EvGenerateCert] @ replicate 6 (EvIntn (length chars))"
  from NewCluster_log [OF nc] have w0: "w0 = w @ ?intro"
    and gc: "GenerateCert e (w @ [EvNewClientWithOpts]) = Inr (Cert c)"
    and img: "BaseImage c = baseImage" and nodes: "Nodes c = []"
    by simp_all
  from NewNodesCalls_log [OF calls] img nodes obtain evs where
    c1: "Cert c1 = Cert c"
    and evs: "w1 = w0 @ evs" "list_all (NewNodes_emits (EncodeToString e) (Cert c) baseImage) evs"
    and l: "list_all (launchedFrom (EncodeToString e) (Cert c) baseImage w1) (Nodes c1)"
    by auto
  have d: "drop (length w) w1 = ?intro @ evs"
    using w0 evs by simp
  have cnt: "count_list (drop (length w) w1) EvGenerateCert = 1"
    using list_all_emits_no_GenerateCert [OF evs(2)] by (simp add: d)
  have cfg: "cfg = containerConfig (EncodeToString e) baseImage (Cert c)"
    if "EvContainerCreate cfg hc name \<in> set (drop (length w) w1)" for cfg hc name
    using list_all_emits_create [OF evs(2)] that by (auto simp: d)
  have cr: "\<forall>cfg hc name. EvContainerCreate cfg hc name \<in> set (drop (length w) w1) \<longrightarrow>
           Image cfg = baseImage
           \<and> Entrypoint cfg =
               [''/nodeagent'',
                ''--ca-cert-pem'', EncodeToString e (CertPEMBytes (CA (Cert c))),
                ''--cert-pem'', EncodeToString e (CertPEMBytes (Server (Cert c))),
                ''--key-pem'', EncodeToString e (KeyPEMBytes (Server (Cert c))),
                ''--on-heartbeat-failure'', ''exit'',
                ''--listen-addr'', ''0.0.0.0:8080'']"
  proof (intro allI impI)
    fix cfg hc name
    assume "EvContainerCreate cfg hc name \<in> set (drop (length w) w1)"
    then have "cfg = containerConfig (EncodeToString e) baseImage (Cert c)" by (rule cfg)
    then show "Image cfg = baseImage
           \<and> Entrypoint cfg =
               [''/nodeagent'',
                ''--ca-cert-pem'', EncodeToString e (CertPEMBytes (CA (Cert c))),
                ''--cert-pem'', EncodeToString e (CertPEMBytes (Server (Cert c))),
                ''--key-pem'', EncodeToString e (KeyPEMBytes (Server (Cert c))),
                ''--on-heartbeat-failure'', ''exit'',
                ''--listen-addr'', ''0.0.0.0:8080'']"
      by (simp add: containerConfig_def)
  qed
  have cl: "\<forall>cs host port. EvNewClient cs host port \<in> set (drop (length w) w1) \<longrightarrow> cs = Cert c"
    using list_all_emits_client [OF evs(2)] by (auto simp: d)
  from cnt gc c1 cr cl l show ?thesis by blast
qed

theorem one_certificate_set_witness:
  "NewCluster (testWorld None) [] ''ubuntu'' [] = (testLog, Inr builtCluster)
   \<and> count_list (fst (NewNodesCalls (testWorld None) testLog builtCluster [1, 1])) EvGenerateCert = 1
   \<and> Cert (snd (NewNodesCalls (testWorld None) testLog builtCluster [1, 1])) = testCerts
   \<and> map ContainerName (Nodes (snd (NewNodesCalls (testWorld None) testLog builtCluster [1, 1])))
       = [''clustertest-cefghi-0'', ''clustertest-cefghi-1'']
   \<and> map (\<lambda>ev. case ev of EvContainerCreate cfg hc name \<Rightarrow> Entrypoint cfg | _ \<Rightarrow> [])
         (filter (\<lambda>ev. case ev of EvContainerCreate cfg hc name \<Rightarrow> True | _ \<Rightarrow> False)
            (fst (NewNodesCalls (testWorld None) testLog builtCluster [1, 1])))
       = [[''/nodeagent'', ''--ca-cert-pem'', ''b64:CA-CERT'', ''--cert-pem'', ''b64:LEAF-CERT'',
           ''--key-pem'', ''b64:LEAF-KEY'', ''--on-heartbeat-failure'', ''exit'',
           ''--listen-addr'', ''0.0.0.0:8080''],
          [''/nodeagent'', ''--ca-cert-pem'', ''b64:CA-CERT'', ''--cert-pem'', ''b64:LEAF-CERT'',
           ''--key-pem'', ''b64:LEAF-KEY'', ''--on-heartbeat-failure'', ''exit'',
           ''--listen-addr'', ''0.0.0.0:8080'']]
   \<and> list_all (launchedFrom (EncodeToString (testWorld None)) testCerts ''ubuntu''
         (fst (NewNodesCalls (testWorld None) testLog builtCluster [1, 1])))
       (Nodes (snd (NewNodesCalls (testWorld None) testLog builtCluster [1, 1])))"
proof -
  have nc: "NewCluster (testWorld None) [] ''ubuntu'' [] = (testLog, Inr builtCluster)"
    by (rule NewCluster_testWorld)
  have calls: "NewNodesCalls (testWorld None) testLog builtCluster [1, 1]
      = (fst (NewNodesCalls (testWorld None) testLog builtCluster [1, 1]),
         snd (NewNodesCalls (testWorld None) testLog builtCluster [1, 1]))"
    by simp
  have names: "map ContainerName (Nodes (snd (NewNodesCalls (testWorld None) testLog builtCluster [1, 1])))
       = [''clustertest-cefghi-0'', ''clustertest-cefghi-1'']"
    apply (simp only: NewNodesCalls.simps NewNodes_testWorld prod.case)
    apply (simp add: eval_docker firstNode_def)
    done
  have entrypoints:
    "map (\<lambda>ev. case ev of EvContainerCreate cfg hc name \<Rightarrow> Entrypoint cfg | _ \<Rightarrow> [])
         (filter (\<lambda>ev. case ev of EvContainerCreate cfg hc name \<Rightarrow> True | _ \<Rightarrow> False)
            (fst (NewNodesCalls (testWorld None) testLog builtCluster [1, 1])))
       = [[''/nodeagent'', ''--ca-cert-pem'', ''b64:CA-CERT'', ''--cert-pem'', ''b64:LEAF-CERT'',
           ''--key-pem'', ''b64:LEAF-KEY'', ''--on-heartbeat-failure'', ''exit'',
           ''--listen-addr'', ''0.0.0.0:8080''],
          [''/nodeagent'', ''--ca-cert-pem'', ''b64:CA-CERT'', ''--cert-pem'', ''b64:LEAF-CERT'',
           ''--key-pem'', ''b64:LEAF-KEY'', ''--on-heartbeat-failure'', ''exit'',
           ''--listen-addr'', ''0.0.0.0:8080'']]"
    apply (simp only: NewNodesCalls.simps NewNodes_testWorld prod.case)
    apply (simp add: eval_docker firstNode_def)
    done
  have c: "Cert builtCluster = testCerts" by (simp add: builtCluster_def)
  from one_certificate_set [OF nc calls] nc names entrypoints c show ?thesis by simp
qed

subsection \<open>Waiting for the agents\<close>

text \<open>
  What \<^verbatim>\<open>NewNodes\<close> returns, and the state it leaves the cluster in, do not depend on
  what \<^verbatim>\<open>WaitForServer\<close> returns.
\<close>

lemma launchNode_ignores_WaitForServer:
  "launchNode (e\<lparr>WaitForServer := f\<rparr>) bin i w c = launchNode e bin i w c"
  by (simp add: launchNode_def Let_def split: sum.splits option.splits)

lemma launchLoop_ignores_WaitForServer:
  "launchLoop (e\<lparr>WaitForServer := f\<rparr>) bin startID n i w c newNodes
     = launchLoop e bin startID n i w c newNodes"
proof (induction e bin startID n i w c newNodes rule: launchLoop.induct)
  case (1 e bin startID n i w c newNodes)
  show ?case
  proof (cases "i < n")
    case False
    then show ?thesis by (simp add: launchLoop.simps)
  next
    case True
    show ?thesis
    proof (cases "launchNode e bin (startID + i) w c")
      case (Pair w1 r1)
      show ?thesis
      proof (cases r1)
        case (Inl err)
        with True Pair show ?thesis
          by (simp add: launchLoop.simps [of _ bin startID n i] launchNode_ignores_WaitForServer)
      next
        case (Inr nd)
        with True Pair "1.IH" [OF True Pair [symmetric] Inr] show ?thesis
          by (simp add: launchLoop.simps [of _ bin startID n i] launchNode_ignores_WaitForServer)
      qed
    qed
  qed
qed

lemma Docker_NewNodes_ignores_WaitForServer:
  "snd (Docker_NewNodes (e\<lparr>WaitForServer := f\<rparr>) w c n) = snd (Docker_NewNodes e w c n)"
  by (simp add: Docker_NewNodes_def ensureImagePulled_def launchLoop_ignores_WaitForServer Let_def
      split: sum.splits option.splits prod.splits)

text \<open>
  C2 fails on the code. In the concrete world where every call succeeds and
  \<^verbatim>\<open>WaitForServer\<close> times out, \<^verbatim>\<open>NewNodes(ctx, 1)\<close> on the newly built cluster
  returns the node and a nil error, although waiting for that node's agent returned
  "context deadline exceeded" (the last event of the call).
\<close>

theorem NewNodes_drops_WaitForServer_error:
  "WaitForServer (testWorld (Some (External ''context deadline exceeded'')))
       (fst (Docker_NewNodes (testWorld (Some (External ''context deadline exceeded'')))
               testLog builtCluster 1))
       (agentClient firstNode)
     = Some (External ''context deadline exceeded'')
   \<and> snd (snd (Docker_NewNodes (testWorld (Some (External ''context deadline exceeded'')))
                  testLog builtCluster 1))
     = Inr [firstNode]
   \<and> last (fst (Docker_NewNodes (testWorld (Some (External ''context deadline exceeded'')))
                  testLog builtCluster 1))
     = EvWaitForServer (agentClient firstNode) (Some (External ''context deadline exceeded''))"
  by (simp add: NewNodes_testWorld) (simp add: testWorld_def firstNode_def)

subsection \<open>Heartbeat failure\<close>

lemma supervise_terminated:
  "foldl (supervise a) \<lparr>liveness = Dead, running = False\<rparr> sigs = \<lparr>liveness = Dead, running = False\<rparr>"
proof (induction sigs)
  case Nil
  then show ?case by simp
next
  case (Cons s sigs)
  then show ?case by (cases s) simp_all
qed

lemma supervise_exit:
  "running st \<Longrightarrow> DeadlineElapsed \<in> set sigs \<Longrightarrow>
     foldl (supervise ExitProcess) st sigs = \<lparr>liveness = Dead, running = False\<rparr>"
proof (induction sigs arbitrary: st)
  case Nil
  then show ?case by simp
next
  case (Cons s sigs)
  show ?case
  proof (cases s)
    case Heartbeat
    with Cons show ?thesis by simp
  next
    case DeadlineElapsed
    with Cons.prems show ?thesis by (simp add: supervise_terminated)
  qed
qed

lemma heartbeatFailureAction_containerConfig:
  "heartbeatFailureAction (Entrypoint (containerConfig enc img cert)) = Some ExitProcess"
  by (simp add: heartbeatFailureAction_def containerConfig_def parseFailureAction_def)

text \<open>
  C4: every container that \<^verbatim>\<open>NewNodes\<close> creates starts the agent with the
  heartbeat-failure action \<open>exit\<close>; an agent so started has terminated, its supervisor
  \<open>Dead\<close>, after any sequence of signals in which the deadline elapsed.
\<close>

theorem nodes_exit_on_heartbeat_failure:
  assumes "Docker_NewNodes e w c n = (w', c', r)"
    and "EvContainerCreate cfg hc name \<in> set (drop (length w) w')"
  shows "heartbeatFailureAction (Entrypoint cfg) = Some ExitProcess
     \<and> (DeadlineElapsed \<in> set sigs \<longrightarrow>
          agentAfter (Entrypoint cfg) sigs = Some \<lparr>liveness = Dead, running = False\<rparr>)"
proof -
  from Docker_NewNodes_log [OF assms(1)] obtain evs where
    "w' = w @ evs" "list_all (NewNodes_emits (EncodeToString e) (Cert c) (BaseImage c)) evs"
    by blast
  with assms(2) have "cfg = containerConfig (EncodeToString e) (BaseImage c) (Cert c)"
    by (auto dest: list_all_emits_create)
  then show ?thesis
    by (simp add: heartbeatFailureAction_containerConfig agentAfter_def superviseAll_def supervise_exit)
qed

theorem nodes_exit_on_heartbeat_failure_witness:
  "Docker_NewNodes (testWorld None) testLog builtCluster 1
     = (fst (Docker_NewNodes (testWorld None) testLog builtCluster 1),
        builtCluster\<lparr>Nodes := [firstNode], imagePulled := True\<rparr>, Inr [firstNode])
   \<and> EvContainerCreate (containerConfig (EncodeToString (testWorld None)) ''ubuntu'' testCerts)
         (hostConfig ''/repo/nodeagent'' 40011) ''clustertest-cefghi-0''
       \<in> set (drop (length testLog) (fst (Docker_NewNodes (testWorld None) testLog builtCluster 1)))
   \<and> DeadlineElapsed \<in> set [Heartbeat, Heartbeat, DeadlineElapsed, Heartbeat]
   \<and> agentAfter (Entrypoint (containerConfig (EncodeToString (testWorld None)) ''ubuntu'' testCerts))
         [Heartbeat, Heartbeat, DeadlineElapsed, Heartbeat]
       = Some \<lparr>liveness = Dead, running = False\<rparr>"
proof -
  have run: "Docker_NewNodes (testWorld None) testLog builtCluster 1
     = (fst (Docker_NewNodes (testWorld None) testLog builtCluster 1),
        builtCluster\<lparr>Nodes := [firstNode], imagePulled := True\<rparr>, Inr [firstNode])"
    by (simp add: NewNodes_testWorld)
  have ev: "EvContainerCreate (containerConfig (EncodeToString (testWorld None)) ''ubuntu'' testCerts)
         (hostConfig ''/repo/nodeagent'' 40011) ''clustertest-cefghi-0''
       \<in> set (drop (length testLog) (fst (Docker_NewNodes (testWorld None) testLog builtCluster 1)))"
    by (simp add: NewNodes_testWorld)
  from nodes_exit_on_heartbeat_failure [OF run ev, of "[Heartbeat, Heartbeat, DeadlineElapsed, Heartbeat]"]
    run ev show ?thesis by simp
qed

section \<open>The node agent: properties\<close>

subsection \<open>Chunks and frames\<close>

lemma concat_chunks: "concat (chunks ns bs) = bs"
  by (induction ns bs rule: chunks.induct) simp_all

lemma demux_carried:
  "demux fs (out, err) = (out @ carried Stdout fs, err @ carried Stderr fs)"
  by (induction fs "(out, err)" arbitrary: out err rule: demux.induct) simp_all

lemma carried_append: "carried f (xs @ ys) = carried f xs @ carried f ys"
  by (induction f xs rule: carried.induct) simp_all

lemma carried_StdoutChunk:
  "carried Stdout (map StdoutChunk cs) = concat cs" "carried Stderr (map StdoutChunk cs) = []"
  by (induction cs) simp_all

lemma carried_StderrChunk:
  "carried Stderr (map StderrChunk cs) = concat cs" "carried Stdout (map StderrChunk cs) = []"
  by (induction cs) simp_all

lemma carried_Stdout_none:
  "\<forall>fr \<in> set ys. \<exists>b. fr = StderrChunk b \<Longrightarrow> carried Stdout ys = []"
  by (induction ys) auto

lemma carried_Stderr_none:
  "\<forall>fr \<in> set xs. \<exists>b. fr = StdoutChunk b \<Longrightarrow> carried Stderr xs = []"
  by (induction xs) auto

lemma carried_mux_Stdout:
  "\<forall>fr \<in> set ys. \<exists>b. fr = StderrChunk b \<Longrightarrow>
     carried Stdout (mux order xs ys) = carried Stdout xs"
proof (induction order xs ys rule: mux.induct)
  case (1 order ys)
  then show ?case by (simp add: carried_Stdout_none)
next
  case (3 v va vb vc)
  then have "carried Stdout (vb # vc) = []" by (rule carried_Stdout_none)
  moreover have "mux [] (v # va) (vb # vc) = (v # va) @ (vb # vc)" by simp
  ultimately show ?case by (simp only: carried_append append_Nil2)
next
  case (4 order x xs ys)
  then show ?case by (cases x) auto
next
  case (5 order v va y ys)
  then show ?case by (cases y) auto
qed auto

lemma carried_mux_Stderr:
  "\<forall>fr \<in> set xs. \<exists>b. fr = StdoutChunk b \<Longrightarrow>
     carried Stderr (mux order xs ys) = carried Stderr ys"
proof (induction order xs ys rule: mux.induct)
  case (2 order v va)
  then have "carried Stderr (v # va) = []" by (rule carried_Stderr_none)
  then show ?case by simp
next
  case (3 v va vb vc)
  then have "carried Stderr (v # va) = []" by (rule carried_Stderr_none)
  moreover have "mux [] (v # va) (vb # vc) = (v # va) @ (vb # vc)" by simp
  ultimately show ?case by (simp only: carried_append append_Nil)
next
  case (4 order x xs ys)
  then show ?case by (cases x) auto
next
  case (5 order v va y ys)
  then show ?case by (cases y) auto
qed auto

lemma demux_mux:
  "demux (mux order (map StdoutChunk xs) (map StderrChunk ys)) ([], [])
     = (concat xs, concat ys)"
  by (auto simp: demux_carried carried_mux_Stdout carried_mux_Stderr
      carried_StdoutChunk carried_StderrChunk)

lemma execute_processEngine:
  "behaviour p (stdinPipe st) = (out, err, c) \<Longrightarrow>
   \<exists>st'. execute (processEngine cap) p st = Exited st' c
     \<and> stdoutRelayed st' = stdoutRelayed st @ out
     \<and> stderrRelayed st' = stderrRelayed st @ err"
proof (induction p arbitrary: st out err c)
  case (Exit x)
  then show ?case by simp
next
  case (Write f s p)
  obtain out' err' c' where b: "behaviour p (stdinPipe st) = (out', err', c')"
    by (cases "behaviour p (stdinPipe st)") auto
  have st: "stdinPipe (relay f s st) = stdinPipe st"
    by (cases f) (simp_all add: relay_def)
  from Write.IH [of "relay f s st" out' err' c'] b st
  obtain st' where "execute (processEngine cap) p (relay f s st) = Exited st' c'"
     "stdoutRelayed st' = stdoutRelayed (relay f s st) @ out'"
     "stderrRelayed st' = stderrRelayed (relay f s st) @ err'"
    by auto
  with Write.prems b show ?case
    by (cases f) (auto simp: processEngine_def relay_def)
next
  case (ReadLine k)
  show ?case
  proof (cases "takeLine (stdinPipe st)")
    case None
    with ReadLine.prems have "behaviour (k (stdinPipe st)) (stdinPipe (st\<lparr>stdinPipe := []\<rparr>)) = (out, err, c)"
      by simp
    from ReadLine.IH [OF _ this] None show ?thesis
      by (auto simp: processEngine_def)
  next
    case (Some a)
    obtain l rest where a: "a = (l, rest)" by (cases a)
    with Some ReadLine.prems have "behaviour (k l) (stdinPipe (st\<lparr>stdinPipe := rest\<rparr>)) = (out, err, c)"
      by simp
    from ReadLine.IH [OF _ this] Some a show ?thesis
      by (auto simp: processEngine_def)
  qed
qed

lemma stdinDelivered_inputChunksOf: "stdinDelivered (inputChunksOf t req) = inputOf req"
  by (simp add: stdinDelivered_def inputChunksOf_def inputOf_def concat_chunks split: option.splits)

lemma demux_answer:
  "demux (mux order (if a then map StdoutChunk xs else []) (if b then map StderrChunk ys else []))
       ([], [])
     = (if a then concat xs else [], if b then concat ys else [])"
proof -
  have "demux (mux order (map StdoutChunk (if a then xs else [])) (map StderrChunk (if b then ys else [])))
       ([], []) = (concat (if a then xs else []), concat (if b then ys else []))"
    by (rule demux_mux)
  then show ?thesis by (simp split: if_splits)
qed

lemma clientRun_behaviour:
  assumes sp: "spawn h (cmd req) (args req) = Inr p"
    and b: "behaviour p (inputOf req) = (out, err, c)"
  shows "clientRun h t req =
     Some (Inr \<lparr>exitCode = c,
                stdoutSink = (if wantsStdout req then Some out else None),
                stderrSink = (if wantsStderr req then Some err else None)\<rparr>)"
proof -
  let ?st0 = "freshPipes (inputChunksOf t req)"
  have "stdinPipe ?st0 = inputOf req"
    by (simp add: freshPipes_def stdinDelivered_inputChunksOf)
  with b have "behaviour p (stdinPipe ?st0) = (out, err, c)" by simp
  from execute_processEngine [OF this, of "pipeSize h"]
  obtain st' where ex: "execute (processEngine (pipeSize h)) p ?st0 = Exited st' c"
    and o: "stdoutRelayed st' = out" and e: "stderrRelayed st' = err"
    by (auto simp: freshPipes_def)
  show ?thesis
    by (simp add: clientRun_def engineRun_def sp ex o e demux_answer concat_chunks)
qed

subsection \<open>Engines that do less\<close>

text \<open>
  An engine that drains only standard output leaves a process blocked on a write to
  standard error that does not fit the pipe; an engine that leaves standard input open
  leaves a process blocked on reading a line that has no newline yet.
\<close>

lemma undrained_pipe_blocks:
  "execute \<lparr>pipeCapacity = 8, drains = (\<lambda>f. f = Stdout), closesStdin = True\<rparr>
     (Write Stdout ''0123456789'' (Write Stderr ''0123456789'' (Exit 0))) (freshPipes [])
   = BlockedWriting Stderr"
  by (simp add: freshPipes_def stdinDelivered_def relay_def pipeOf_def)

lemma open_stdin_blocks:
  "execute \<lparr>pipeCapacity = 8, drains = (\<lambda>f. True), closesStdin = False\<rparr>
     (ReadLine (\<lambda>line. Exit 0)) (freshPipes [''fo'', ''o''])
   = BlockedReading"
  by (simp add: freshPipes_def stdinDelivered_def)

subsection \<open>Runs\<close>

text \<open>
  C5: when one or both sinks are absent, the engine still takes every byte of both
  streams off the pipes, so the process runs to its exit, and the caller's wait yields
  the process's exit code and no error; an absent sink receives nothing.
\<close>

theorem Run_without_sinks:
  assumes "spawn h (cmd req) (args req) = Inr p"
    and "behaviour p (inputOf req) = (out, err, c)"
    and "\<not> wantsStdout req \<or> \<not> wantsStderr req"
  shows "(\<exists>st. execute (processEngine (pipeSize h)) p (freshPipes (inputChunksOf t req)) = Exited st c
           \<and> stdoutRelayed st = out \<and> stderrRelayed st = err)
     \<and> clientRun h t req =
         Some (Inr \<lparr>exitCode = c,
                    stdoutSink = (if wantsStdout req then Some out else None),
                    stderrSink = (if wantsStderr req then Some err else None)\<rparr>)"
proof -
  have "stdinPipe (freshPipes (inputChunksOf t req)) = inputOf req"
    by (simp add: freshPipes_def stdinDelivered_inputChunksOf)
  with assms(2) have "behaviour p (stdinPipe (freshPipes (inputChunksOf t req))) = (out, err, c)"
    by simp
  from execute_processEngine [OF this, of "pipeSize h"]
  have "\<exists>st. execute (processEngine (pipeSize h)) p (freshPipes (inputChunksOf t req)) = Exited st c
           \<and> stdoutRelayed st = out \<and> stderrRelayed st = err"
    by (auto simp: freshPipes_def)
  with clientRun_behaviour [OF assms(1,2), of t] show ?thesis by simp
qed

theorem Run_without_sinks_witness:
  "spawn testHost ''echo'' [''hello''] = Inr (Write Stdout ''hello\<newline>'' (Exit 0))
   \<and> behaviour (Write Stdout ''hello\<newline>'' (Exit 0)) [] = (''hello\<newline>'', [], 0)
   \<and> clientRun testHost (testTiming [])
        \<lparr>cmd = ''echo'', args = [''hello''], stdin = None, wantsStdout = False, wantsStderr = False\<rparr>
       = Some (Inr \<lparr>exitCode = 0, stdoutSink = None, stderrSink = None\<rparr>)
   \<and> spawn testHost ''sh'' [''-c'', ''printf foo; printf bar 1>&2'']
       = Inr (Write Stdout ''foo'' (Write Stderr ''bar'' (Exit 0)))
   \<and> behaviour (Write Stdout ''foo'' (Write Stderr ''bar'' (Exit 0))) [] = (''foo'', ''bar'', 0)
   \<and> clientRun testHost (testTiming [])
        \<lparr>cmd = ''sh'', args = [''-c'', ''printf foo; printf bar 1>&2''], stdin = None,
         wantsStdout = False, wantsStderr = False\<rparr>
       = Some (Inr \<lparr>exitCode = 0, stdoutSink = None, stderrSink = None\<rparr>)"
  using
    Run_without_sinks [of testHost
      "\<lparr>cmd = ''echo'', args = [''hello''], stdin = None, wantsStdout = False, wantsStderr = False\<rparr>"
      "Write Stdout ''hello\<newline>'' (Exit 0)" "''hello\<newline>''" "[]" 0 "testTiming []"]
    Run_without_sinks [of testHost
      "\<lparr>cmd = ''sh'', args = [''-c'', ''printf foo; printf bar 1>&2''], stdin = None,
        wantsStdout = False, wantsStderr = False\<rparr>"
      "Write Stdout ''foo'' (Write Stderr ''bar'' (Exit 0))" "''foo''" "''bar''" 0 "testTiming []"]
  by (simp add: testHost_def testSpawn_def inputOf_def)

text \<open>
  C6: when an input stream is supplied, the bytes written to the process's standard
  input are the bytes of the stream, whatever the sizes of the client's reads; the
  process is not left waiting for input after the stream's end, but runs to its exit as
  it does on that input followed by end of file; the wait yields its exit code, and a
  wired sink receives its output.
\<close>

theorem Run_stdin_relayed:
  assumes "stdin req = Some inp"
    and "spawn h (cmd req) (args req) = Inr p"
    and "behaviour p inp = (out, err, c)"
  shows "stdinDelivered (inputChunksOf t req) = inp
     \<and> (\<exists>st. execute (processEngine (pipeSize h)) p (freshPipes (inputChunksOf t req))
               = Exited st c)
     \<and> clientRun h t req =
         Some (Inr \<lparr>exitCode = c,
                    stdoutSink = (if wantsStdout req then Some out else None),
                    stderrSink = (if wantsStderr req then Some err else None)\<rparr>)"
proof -
  from assms(1) have i: "inputOf req = inp" by (simp add: inputOf_def)
  with assms(3) have b: "behaviour p (inputOf req) = (out, err, c)" by simp
  have "stdinPipe (freshPipes (inputChunksOf t req)) = inputOf req"
    by (simp add: freshPipes_def stdinDelivered_inputChunksOf)
  with b have "behaviour p (stdinPipe (freshPipes (inputChunksOf t req))) = (out, err, c)"
    by simp
  from execute_processEngine [OF this, of "pipeSize h"]
  have "\<exists>st. execute (processEngine (pipeSize h)) p (freshPipes (inputChunksOf t req)) = Exited st c"
    by blast
  with clientRun_behaviour [OF assms(2) b, of t] i show ?thesis
    by (simp add: stdinDelivered_inputChunksOf)
qed

theorem Run_stdin_relayed_witness:
  "spawn testHost ''sh'' [''-c'', ''read line; echo $line bar'']
       = Inr (ReadLine (\<lambda>line. Write Stdout (line @ '' bar\<newline>'') (Exit 0)))
   \<and> behaviour (ReadLine (\<lambda>line. Write Stdout (line @ '' bar\<newline>'') (Exit 0))) ''foo''
       = (''foo bar\<newline>'', [], 0)
   \<and> clientRun testHost (testTiming [])
        \<lparr>cmd = ''sh'', args = [''-c'', ''read line; echo $line bar''], stdin = Some ''foo'',
         wantsStdout = True, wantsStderr = False\<rparr>
       = Some (Inr \<lparr>exitCode = 0, stdoutSink = Some ''foo bar\<newline>'', stderrSink = None\<rparr>)"
  using
    Run_stdin_relayed [of
      "\<lparr>cmd = ''sh'', args = [''-c'', ''read line; echo $line bar''], stdin = Some ''foo'',
        wantsStdout = True, wantsStderr = False\<rparr>"
      "''foo''" testHost "ReadLine (\<lambda>line. Write Stdout (line @ '' bar\<newline>'') (Exit 0))"
      "''foo bar\<newline>''" "[]" 0 "testTiming []"]
  by (simp add: testHost_def testSpawn_def)

text \<open>
  C7: with both sinks wired, the standard-output sink receives exactly the bytes the
  process wrote to standard output and the standard-error sink exactly those it wrote to
  standard error, for every process (whatever the order of its writes), every size of
  the relay tasks' reads and every order in which the two relay tasks send.
\<close>

theorem Run_sinks_separate:
  assumes "wantsStdout req" and "wantsStderr req"
    and "spawn h (cmd req) (args req) = Inr p"
    and "behaviour p (inputOf req) = (out, err, c)"
  shows "clientRun h t req = Some (Inr \<lparr>exitCode = c, stdoutSink = Some out, stderrSink = Some err\<rparr>)"
  using clientRun_behaviour [OF assms(3,4), of t] assms(1,2) by simp

theorem Run_sinks_separate_witness:
  "spawn testHost ''sh'' [''-c'', ''printf foo; printf bar 1>&2'']
       = Inr (Write Stdout ''foo'' (Write Stderr ''bar'' (Exit 0)))
   \<and> behaviour (Write Stdout ''foo'' (Write Stderr ''bar'' (Exit 0))) [] = (''foo'', ''bar'', 0)
   \<and> clientRun testHost (testTiming [True, False, True])
        \<lparr>cmd = ''sh'', args = [''-c'', ''printf foo; printf bar 1>&2''], stdin = None,
         wantsStdout = True, wantsStderr = True\<rparr>
       = Some (Inr \<lparr>exitCode = 0, stdoutSink = Some ''foo'', stderrSink = Some ''bar''\<rparr>)
   \<and> clientRun testHost (testTiming [False, False, True])
        \<lparr>cmd = ''sh'', args = [''-c'', ''printf foo; printf bar 1>&2''], stdin = None,
         wantsStdout = True, wantsStderr = True\<rparr>
       = Some (Inr \<lparr>exitCode = 0, stdoutSink = Some ''foo'', stderrSink = Some ''bar''\<rparr>)"
  using
    Run_sinks_separate [of
      "\<lparr>cmd = ''sh'', args = [''-c'', ''printf foo; printf bar 1>&2''], stdin = None,
        wantsStdout = True, wantsStderr = True\<rparr>"
      testHost "Write Stdout ''foo'' (Write Stderr ''bar'' (Exit 0))" "''foo''" "''bar''" 0
      "testTiming [True, False, True]"]
    Run_sinks_separate [of
      "\<lparr>cmd = ''sh'', args = [''-c'', ''printf foo; printf bar 1>&2''], stdin = None,
        wantsStdout = True, wantsStderr = True\<rparr>"
      testHost "Write Stdout ''foo'' (Write Stderr ''bar'' (Exit 0))" "''foo''" "''bar''" 0
      "testTiming [False, False, True]"]
  by (simp add: testHost_def testSpawn_def inputOf_def)

end
